theory Spec2Isabelle
  imports Complex_Main
begin

section \<open>JavaScript values handled by \<^verbatim>\<open>src/app/api/btc-prices/route.js\<close>\<close>

text \<open>
  Every number the route handles is read from a JSON response body.  \<^verbatim>\<open>JSON.parse\<close>
  yields a finite double or, when a literal such as \<^verbatim>\<open>1e999\<close> overflows, an infinity;
  it never yields \<^verbatim>\<open>NaN\<close>.  A finite double is represented by the real number it
  denotes (\<open>Fin r\<close>, the sign of a zero left out).  Comparison of doubles is exact.  An
  arithmetic operation gives the double nearest to the exact result, a tie going to the
  one with an even significand, and an infinity when that result is beyond the largest
  double.
\<close>

datatype number = Fin real | PosInf | NegInf

instantiation number :: linorder
begin

fun less_eq_number :: "number \<Rightarrow> number \<Rightarrow> bool" where
  "less_eq_number NegInf y = True"
| "less_eq_number x PosInf = True"
| "less_eq_number (Fin a) (Fin b) = (a \<le> b)"
| "less_eq_number PosInf y = False"
| "less_eq_number x NegInf = False"

definition less_number :: "number \<Rightarrow> number \<Rightarrow> bool" where
  "less_number x y = (x \<le> y \<and> \<not> y \<le> x)"

instance
proof
  fix x y z :: number
  show "(x < y) = (x \<le> y \<and> \<not> y \<le> x)"
    by (simp add: less_number_def)
  show "x \<le> x"
    by (cases x) simp_all
  show "x \<le> y \<Longrightarrow> y \<le> z \<Longrightarrow> x \<le> z"
    by (cases x; cases y; cases z) simp_all
  show "x \<le> y \<Longrightarrow> y \<le> x \<Longrightarrow> x = y"
    by (cases x; cases y) simp_all
  show "x \<le> y \<or> y \<le> x"
    by (cases x; cases y) auto
qed

end

subsection \<open>Rounding to a double\<close>

text \<open>The number of binary digits of a positive integer.\<close>

function bit_length :: "int \<Rightarrow> int" where
  "bit_length n = (if n \<le> 0 then 0 else 1 + bit_length (n div 2))"
  by pat_completeness auto
termination
  by (relation "measure nat") auto

text \<open>\<open>2\<close> to an integer power, and the binary exponent of a positive real: the \<open>k\<close>
  with \<open>2^k \<le> x < 2^(k+1)\<close>.\<close>

definition scale2 :: "int \<Rightarrow> real" where
  "scale2 e = (if 0 \<le> e then 2 ^ nat e else 1 / 2 ^ nat (- e))"

definition ilog2 :: "real \<Rightarrow> int" where
  "ilog2 x =
     (if 1 \<le> x then bit_length \<lfloor>x\<rfloor> - 1 else - bit_length (\<lceil>1 / x\<rceil> - 1))"

text \<open>The nearest integer, a tie going to the even one.\<close>

definition round_half_even :: "real \<Rightarrow> int" where
  "round_half_even q =
     (let f = \<lfloor>q\<rfloor>; d = q - of_int f
      in if d < 1 / 2 then f else if 1 / 2 < d then f + 1 else if even f then f else f + 1)"

text \<open>The double nearest to a real (binary64: 53 significant bits, least exponent
  \<open>-1074\<close> for the last bit, largest double \<open>(2^53 - 1) * 2^971\<close>).  The result is
  \<open>m * 2^e\<close> with \<open>\<bar>m\<bar> \<le> 2^53\<close>; it is beyond the largest double exactly when \<open>e\<close> is
  above 971, or \<open>e\<close> is 971 and \<open>\<bar>m\<bar>\<close> has reached \<open>2^53 = 9007199254740992\<close>.\<close>

definition round_to_double :: "real \<Rightarrow> number" where
  "round_to_double x =
     (if x = 0 then Fin 0
      else (let e = max (ilog2 \<bar>x\<bar> - 52) (- 1074);
                m = round_half_even (x / scale2 e)
            in if 971 < e \<or> (e = 971 \<and> 9007199254740992 \<le> \<bar>m\<bar>)
               then (if 0 < x then PosInf else NegInf)
               else Fin (of_int m * scale2 e)))"

subsection \<open>The operations the route uses\<close>

text \<open>\<^verbatim>\<open>x - t\<close> for a finite double \<open>t\<close>: the difference of two doubles, rounded.
  \<^verbatim>\<open>Math.abs\<close> is exact, and so is \<^verbatim>\<open>Math.round\<close>, which rounds halves towards \<open>+\<infinity>\<close> and
  leaves the infinities alone (a double from \<open>2^52\<close> on is an integer already).\<close>

fun minus_finite :: "number \<Rightarrow> real \<Rightarrow> number" where
  "minus_finite (Fin r) t = round_to_double (r - t)"
| "minus_finite PosInf t = PosInf"
| "minus_finite NegInf t = NegInf"

fun Math_abs :: "number \<Rightarrow> number" where
  "Math_abs (Fin r) = Fin \<bar>r\<bar>"
| "Math_abs PosInf = PosInf"
| "Math_abs NegInf = PosInf"

fun Math_round :: "number \<Rightarrow> number" where
  "Math_round (Fin r) = Fin (of_int \<lfloor>r + 1 / 2\<rfloor>)"
| "Math_round PosInf = PosInf"
| "Math_round NegInf = NegInf"

fun is_finite :: "number \<Rightarrow> bool" where
  "is_finite (Fin r) = True"
| "is_finite PosInf = False"
| "is_finite NegInf = False"

text \<open>A parsed JSON document.  An object is the list of its properties; \<^verbatim>\<open>undefined\<close>
  (a missing property) is \<open>None\<close> wherever a value is looked up.\<close>

datatype json =
    JNull
  | JBool bool
  | JNum number
  | JStr string
  | JArr "json list"
  | JObj "(string \<times> json) list"

text \<open>\<^verbatim>\<open>v?.key\<close>: \<^verbatim>\<open>undefined\<close> when \<open>v\<close> is \<^verbatim>\<open>undefined\<close> or \<^verbatim>\<open>null\<close>, the property
  when \<open>v\<close> is an object that has it, \<^verbatim>\<open>undefined\<close> otherwise (no array, string, number or
  boolean has a property named \<^verbatim>\<open>bitcoin\<close>, \<^verbatim>\<open>usd\<close> or \<^verbatim>\<open>prices\<close>).\<close>

fun opt_prop :: "json option \<Rightarrow> string \<Rightarrow> json option" where
  "opt_prop (Some (JObj props)) key = map_of props key"
| "opt_prop v key = None"

section \<open>Selection of the closest data point\<close>

text \<open>The absolute time difference \<^verbatim>\<open>Math.abs(ts - target)\<close> as both loops compute it, in
  double arithmetic.\<close>

definition time_diff :: "real \<Rightarrow> number \<Rightarrow> number" where
  "time_diff target ts = Math_abs (minus_finite ts target)"

text \<open>The guards of the loop in \<^verbatim>\<open>pickClosestPrice\<close> (lines 31-33): the entry is an array of
  at least two elements whose elements 0 and 1 are numbers.  The result is the pair
  \<^verbatim>\<open>[ts, price]\<close>, or \<open>None\<close> when the loop says \<^verbatim>\<open>continue\<close>.\<close>

fun price_fields :: "json \<Rightarrow> (number \<times> number) option" where
  "price_fields (JArr entry) =
     (if length entry < 2 then None
      else (case (entry ! 0, entry ! 1) of
              (JNum ts, JNum price) \<Rightarrow> Some (ts, price)
            | _ \<Rightarrow> None))"
| "price_fields _ = None"

text \<open>The guards of the loop in \<^verbatim>\<open>pickClosestCandleClose\<close> (lines 14-16): an array of at
  least five elements whose elements 0 (time) and 4 (close) are numbers.\<close>

fun candle_fields :: "json \<Rightarrow> (number \<times> number) option" where
  "candle_fields (JArr c) =
     (if length c < 5 then None
      else (case (c ! 0, c ! 4) of
              (JNum timeSec, JNum close) \<Rightarrow> Some (timeSec, close)
            | _ \<Rightarrow> None))"
| "candle_fields _ = None"

text \<open>The two loops, with the loop variables \<^verbatim>\<open>closest\<close> (\<open>None\<close> is \<^verbatim>\<open>null\<close>) and
  \<^verbatim>\<open>closestDiff\<close> as arguments.\<close>

fun pickClosestPrice_loop ::
  "json list \<Rightarrow> real \<Rightarrow> number option \<Rightarrow> number \<Rightarrow> number option" where
  "pickClosestPrice_loop [] targetMs closest closestDiff = closest"
| "pickClosestPrice_loop (entry # prices) targetMs closest closestDiff =
     (case price_fields entry of
        None \<Rightarrow> pickClosestPrice_loop prices targetMs closest closestDiff
      | Some (ts, price) \<Rightarrow>
          (let diff = Math_abs (minus_finite ts targetMs) in
           if diff < closestDiff
           then pickClosestPrice_loop prices targetMs (Some price) diff
           else pickClosestPrice_loop prices targetMs closest closestDiff))"

definition pickClosestPrice :: "json list \<Rightarrow> real \<Rightarrow> number option" where
  "pickClosestPrice prices targetMs = pickClosestPrice_loop prices targetMs None PosInf"

fun pickClosestCandleClose_loop ::
  "json list \<Rightarrow> real \<Rightarrow> number option \<Rightarrow> number \<Rightarrow> number option" where
  "pickClosestCandleClose_loop [] targetSec closest closestDiff = closest"
| "pickClosestCandleClose_loop (c # candles) targetSec closest closestDiff =
     (case candle_fields c of
        None \<Rightarrow> pickClosestCandleClose_loop candles targetSec closest closestDiff
      | Some (timeSec, close) \<Rightarrow>
          (let diff = Math_abs (minus_finite timeSec targetSec) in
           if diff < closestDiff
           then pickClosestCandleClose_loop candles targetSec (Some close) diff
           else pickClosestCandleClose_loop candles targetSec closest closestDiff))"

definition pickClosestCandleClose :: "json list \<Rightarrow> real \<Rightarrow> number option" where
  "pickClosestCandleClose candles targetSec =
     pickClosestCandleClose_loop candles targetSec None PosInf"

text \<open>The well-formed candidates of a list, in list order, as (timestamp, value) pairs.\<close>

definition price_candidates :: "json list \<Rightarrow> (number \<times> number) list" where
  "price_candidates prices = List.map_filter price_fields prices"

definition candle_candidates :: "json list \<Rightarrow> (number \<times> number) list" where
  "candle_candidates candles = List.map_filter candle_fields candles"

text \<open>The absolute time difference as a real number, without rounding: the distance the
  specification speaks of.\<close>

definition exact_diff :: "real \<Rightarrow> number \<Rightarrow> number" where
  "exact_diff target ts = (case ts of Fin r \<Rightarrow> Fin \<bar>r - target\<bar> | _ \<Rightarrow> PosInf)"

text \<open>\<open>first_minimal diff cands ts v\<close>: the candidate \<open>(ts, v)\<close> stands at some position
  of the list, and its distance \<open>diff ts\<close> is strictly less than that of every candidate
  before it and at most that of every candidate after it: it minimises the distance, and
  is the first to do so.\<close>

definition first_minimal ::
  "(number \<Rightarrow> number) \<Rightarrow> (number \<times> number) list \<Rightarrow> number \<Rightarrow> number \<Rightarrow> bool" where
  "first_minimal diff cands ts v =
     (\<exists>i \<in> set [0..<length cands].
        cands ! i = (ts, v) \<and>
        (\<forall>c \<in> set (take i cands). diff ts < diff (fst c)) \<and>
        (\<forall>c \<in> set (drop (Suc i) cands). diff ts \<le> diff (fst c)))"

text \<open>Candidates whose times are whole numbers less than \<open>2^53\<close> away from a whole
  target (epoch seconds or milliseconds), or infinite.\<close>

definition whole_times :: "real \<Rightarrow> (number \<times> number) list \<Rightarrow> bool" where
  "whole_times target cands =
     (of_int \<lfloor>target\<rfloor> = target \<and>
      (\<forall>c \<in> set cands.
         case fst c of
           Fin r \<Rightarrow> of_int \<lfloor>r\<rfloor> = r \<and> \<bar>r - target\<bar> < 2 ^ 53
         | _ \<Rightarrow> True))"

text \<open>An entry is well formed when it is an array of at least \<open>len\<close> elements whose
  elements 0 and \<open>k\<close> are numbers (\<open>len = 2, k = 1\<close> for a price point and
  \<open>len = 5, k = 4\<close> for a candle).\<close>

definition is_number :: "json \<Rightarrow> bool" where
  "is_number j = (case j of JNum n \<Rightarrow> True | _ \<Rightarrow> False)"

definition well_formed :: "nat \<Rightarrow> nat \<Rightarrow> json \<Rightarrow> bool" where
  "well_formed len k e =
     (case e of
        JArr xs \<Rightarrow> len \<le> length xs \<and> is_number (xs ! 0) \<and> is_number (xs ! k)
      | _ \<Rightarrow> False)"

text \<open>Two notions used in the proofs: the loop on the well-formed candidates alone, and
  the position of a candidate that beats a bound, everything before it and nothing after
  it.\<close>

fun closest_scan ::
  "(number \<times> number) list \<Rightarrow> real \<Rightarrow> number option \<Rightarrow> number \<Rightarrow> number option" where
  "closest_scan [] target closest closestDiff = closest"
| "closest_scan ((ts, v) # cands) target closest closestDiff =
     (if time_diff target ts < closestDiff
      then closest_scan cands target (Some v) (time_diff target ts)
      else closest_scan cands target closest closestDiff)"

definition closest_split ::
  "real \<Rightarrow> number \<Rightarrow> (number \<times> number) list \<Rightarrow> number \<Rightarrow> (number \<times> number) list \<Rightarrow> bool" where
  "closest_split target bound before ts after =
     (time_diff target ts < bound \<and>
      (\<forall>c \<in> set before. time_diff target ts < time_diff target (fst c)) \<and>
      (\<forall>c \<in> set after. time_diff target ts \<le> time_diff target (fst c)))"

section \<open>Dates\<close>

text \<open>Time values are integer milliseconds since the epoch, as \<^verbatim>\<open>Date.now()\<close> and
  \<^verbatim>\<open>getTime()\<close> give them.  The calendar functions are those of the language
  definition; the clocks considered are far inside the range of valid time values, so
  \<^verbatim>\<open>TimeClip\<close> is the identity.\<close>

definition msPerDay :: int where
  "msPerDay = 86400000"

definition Day :: "int \<Rightarrow> int" where
  "Day t = t div msPerDay"

definition TimeWithinDay :: "int \<Rightarrow> int" where
  "TimeWithinDay t = t mod msPerDay"

text \<open>The day number of a (proleptic Gregorian) date, month in \<open>1..12\<close>; a day of the
  month beyond the month's end runs into the next month, as \<^verbatim>\<open>MakeDay\<close> has it.\<close>

definition days_from_civil :: "int \<Rightarrow> int \<Rightarrow> int \<Rightarrow> int" where
  "days_from_civil y m d =
     (let y' = (if m \<le> 2 then y - 1 else y);
          era = y' div 400;
          yoe = y' - era * 400;
          doy = (153 * (if m > 2 then m - 3 else m + 9) + 2) div 5 + d - 1;
          doe = yoe * 365 + yoe div 4 - yoe div 100 + doy
      in era * 146097 + doe - 719468)"

text \<open>Year, month (\<open>1..12\<close>) and day of the month of a day number.\<close>

definition civil_from_days :: "int \<Rightarrow> int \<times> int \<times> int" where
  "civil_from_days z =
     (let z' = z + 719468;
          era = z' div 146097;
          doe = z' - era * 146097;
          yoe = (doe - doe div 1460 + doe div 36524 - doe div 146096) div 365;
          doy = doe - (365 * yoe + yoe div 4 - yoe div 100);
          mp = (5 * doy + 2) div 153;
          d = doy - (153 * mp + 2) div 5 + 1;
          m = (if mp < 10 then mp + 3 else mp - 9)
      in (yoe + era * 400 + (if m \<le> 2 then 1 else 0), m, d))"

definition YearFromTime :: "int \<Rightarrow> int" where
  "YearFromTime t = fst (civil_from_days (Day t))"

text \<open>\<^verbatim>\<open>MonthFromTime\<close> counts months from 0.\<close>

definition MonthFromTime :: "int \<Rightarrow> int" where
  "MonthFromTime t = fst (snd (civil_from_days (Day t))) - 1"

definition DateFromTime :: "int \<Rightarrow> int" where
  "DateFromTime t = snd (snd (civil_from_days (Day t)))"

definition MakeDay :: "int \<Rightarrow> int \<Rightarrow> int \<Rightarrow> int" where
  "MakeDay year month date =
     days_from_civil (year + month div 12) (month mod 12 + 1) 1 + date - 1"

definition MakeDate :: "int \<Rightarrow> int \<Rightarrow> int" where
  "MakeDate day time = day * msPerDay + time"

text \<open>The host's time zone: \<^verbatim>\<open>LocalTZA(t, isUTC)\<close>, the offset of local time in
  milliseconds.\<close>

type_synonym timezone = "int \<Rightarrow> bool \<Rightarrow> int"

definition LocalTime :: "timezone \<Rightarrow> int \<Rightarrow> int" where
  "LocalTime tz t = t + tz t True"

definition UTC :: "timezone \<Rightarrow> int \<Rightarrow> int" where
  "UTC tz t = t - tz t False"

definition getFullYear :: "timezone \<Rightarrow> int \<Rightarrow> int" where
  "getFullYear tz tv = YearFromTime (LocalTime tz tv)"

text \<open>\<^verbatim>\<open>setFullYear(year)\<close> on a date with time value \<open>tv\<close>: the new time value.\<close>

definition setFullYear :: "timezone \<Rightarrow> int \<Rightarrow> int \<Rightarrow> int" where
  "setFullYear tz tv year =
     (let t = LocalTime tz tv
      in UTC tz (MakeDate (MakeDay year (MonthFromTime t) (DateFromTime t)) (TimeWithinDay t)))"

section \<open>Decimal notation\<close>

definition digit_char :: "nat \<Rightarrow> char" where
  "digit_char n = ''0123456789'' ! (n mod 10)"

function decimal_of_nat :: "nat \<Rightarrow> string" where
  "decimal_of_nat n =
     (if 10 \<le> n then decimal_of_nat (n div 10) @ [digit_char n] else [digit_char n])"
  by pat_completeness auto
termination
  by (relation "measure (\<lambda>n. n)") auto

text \<open>The string of an integer in a template literal: a minus sign before the digits of
  a negative one.\<close>

definition decimal_of_int :: "int \<Rightarrow> string" where
  "decimal_of_int i =
     (let digits = decimal_of_nat (nat \<bar>i\<bar>) in if i < 0 then CHR ''-'' # digits else digits)"

text \<open>The last \<open>k\<close> decimal digits of \<open>n\<close>, with leading zeros.\<close>

fun pad :: "nat \<Rightarrow> nat \<Rightarrow> string" where
  "pad 0 n = []"
| "pad (Suc k) n = pad k (n div 10) @ [digit_char n]"

text \<open>\<^verbatim>\<open>toISOString()\<close>: \<^verbatim>\<open>YYYY-MM-DDTHH:mm:ss.sssZ\<close> in UTC, the year with a sign and
  six digits outside \<open>0..9999\<close>.\<close>

definition toISOString :: "int \<Rightarrow> string" where
  "toISOString tv =
     (let (y, m, d) = civil_from_days (Day tv);
          ms = TimeWithinDay tv;
          year = (if 0 \<le> y \<and> y \<le> 9999 then pad 4 (nat y)
                  else (if y < 0 then ''-'' else ''+'') @ pad 6 (nat \<bar>y\<bar>))
      in year @ ''-'' @ pad 2 (nat m) @ ''-'' @ pad 2 (nat d) @ ''T'' @
         pad 2 (nat (ms div 3600000)) @ '':'' @ pad 2 (nat (ms div 60000 mod 60)) @ '':'' @
         pad 2 (nat (ms div 1000 mod 60)) @ ''.'' @ pad 3 (nat (ms mod 1000)) @ ''Z'')"

section \<open>Configuration and the outside world\<close>

text \<open>The environment variables the module reads.  An unset variable is \<open>None\<close>.  The
  cache lifetime, when set, is the decimal notation of an integer (an empty string counts
  as unset: it is falsy, and 900 is taken).\<close>

record config =
  BTC_PRICE_CACHE_TTL_SECONDS :: "int option"
  COINGECKO_BASE_URL :: "string option"
  COINGECKO_API_KEY :: "string option"

text \<open>\<^verbatim>\<open>Number(process.env.BTC_PRICE_CACHE_TTL_SECONDS || 900)\<close>.\<close>

definition CACHE_TTL_SECONDS :: "config \<Rightarrow> int" where
  "CACHE_TTL_SECONDS cfg =
     (case BTC_PRICE_CACHE_TTL_SECONDS cfg of None \<Rightarrow> 900 | Some n \<Rightarrow> n)"

text \<open>A string from the environment is truthy when it is set and not empty.\<close>

definition truthy :: "string option \<Rightarrow> bool" where
  "truthy v = (case v of None \<Rightarrow> False | Some s \<Rightarrow> s \<noteq> [])"

definition baseUrl :: "config \<Rightarrow> string" where
  "baseUrl cfg =
     (case COINGECKO_BASE_URL cfg of
        Some url \<Rightarrow> if url \<noteq> [] then url else ''https://api.coingecko.com/api/v3''
      | None \<Rightarrow> ''https://api.coingecko.com/api/v3'')"

definition apiKey_headers :: "config \<Rightarrow> (string \<times> string) list" where
  "apiKey_headers cfg =
     (case COINGECKO_API_KEY cfg of
        Some apiKey \<Rightarrow> if apiKey \<noteq> [] then [(''x-cg-demo-api-key'', apiKey)] else []
      | None \<Rightarrow> [])"

text \<open>A thrown \<^verbatim>\<open>Error\<close> object.\<close>

datatype error = Error (name: string) (message: string)

text \<open>The three upstream addresses, with the parts the route fills in:
  \<^item> \<^verbatim>\<open>${baseUrl}/simple/price?ids=bitcoin&vs_currencies=usd\<close>;
  \<^item> \<^verbatim>\<open>${baseUrl}/coins/bitcoin/market_chart/range?vs_currency=usd&from=${fromSec}&to=${toSec}\<close>;
  \<^item> \<^verbatim>\<open>https://api.exchange.coinbase.com/products/BTC-USD/candles?granularity=..&start=..&end=..\<close>,
    whose start and end are the ISO strings of two time values.\<close>

datatype url =
    SimplePrice string
  | MarketChartRange string int int
  | CoinbaseCandles (granularity: int) (window_start: int) (window_end: int)

datatype request = Request url "(string \<times> string) list"

datatype response = Response (status: nat) (statusText: string) (json: "error + json")

text \<open>\<^verbatim>\<open>res.ok\<close>\<close>

definition ok :: "response \<Rightarrow> bool" where
  "ok res = (200 \<le> status res \<and> status res \<le> 299)"

text \<open>What one run of the pipeline meets: the answer of \<^verbatim>\<open>fetch\<close> to each request (a
  rejection is \<open>Inl\<close>; the body of a response is \<open>Inl\<close> when \<^verbatim>\<open>res.json()\<close> rejects), the
  time \<^verbatim>\<open>new Date()\<close> reads on line 87, and the host's time zone.\<close>

record world =
  fetch :: "request \<Rightarrow> error + response"
  clock :: int
  LocalTZA :: timezone

section \<open>The upstream pipeline \<^verbatim>\<open>fetchFromCoinGecko\<close>\<close>

record payload =
  currentPriceUsd :: number
  historicalPriceUsd :: number
  historicalTargetDate :: string

text \<open>\<^verbatim>\<open>`${res.status} ${res.statusText}`\<close>\<close>

definition status_line :: "response \<Rightarrow> string" where
  "status_line res = decimal_of_nat (status res) @ '' '' @ statusText res"

text \<open>\<^verbatim>\<open>typeof p !== 'number' || p <= 0\<close> fails: the price as a number, \<open>None\<close> when the test
  holds.\<close>

definition positive_number :: "number option \<Rightarrow> number option" where
  "positive_number p =
     (case p of None \<Rightarrow> None | Some n \<Rightarrow> if n \<le> Fin 0 then None else Some n)"

definition json_number :: "json option \<Rightarrow> number option" where
  "json_number v = (case v of Some (JNum n) \<Rightarrow> Some n | _ \<Rightarrow> None)"

definition current_request :: "config \<Rightarrow> request" where
  "current_request cfg = Request (SimplePrice (baseUrl cfg)) (apiKey_headers cfg)"

text \<open>Lines 72-85: the current price.\<close>

definition fetch_current :: "config \<Rightarrow> world \<Rightarrow> error + number" where
  "fetch_current cfg w =
     (case fetch w (current_request cfg) of
        Inl e \<Rightarrow> Inl e
      | Inr currentRes \<Rightarrow>
          if \<not> ok currentRes
          then Inl (Error ''Error'' (''CoinGecko current price error: '' @ status_line currentRes))
          else (case json currentRes of
                  Inl e \<Rightarrow> Inl e
                | Inr currentJson \<Rightarrow>
                    (case positive_number
                            (json_number (opt_prop (opt_prop (Some currentJson) ''bitcoin'') ''usd'')) of
                       None \<Rightarrow> Inl (Error ''Error'' ''Invalid current price payload from CoinGecko'')
                     | Some currentPrice \<Rightarrow> Inr currentPrice)))"

definition historical_request :: "config \<Rightarrow> int \<Rightarrow> request" where
  "historical_request cfg targetSec =
     (let windowDays = 14;
          fromSec = targetSec;
          toSec = targetSec + windowDays * 86400
      in Request (MarketChartRange (baseUrl cfg) fromSec toSec) (apiKey_headers cfg))"

text \<open>Lines 96-119: the value of \<^verbatim>\<open>historicalPrice\<close> on line 121 (\<open>None\<close> is \<^verbatim>\<open>null\<close>), or
  the error thrown, together with the requests sent.\<close>

definition fetch_historical ::
  "config \<Rightarrow> world \<Rightarrow> int \<Rightarrow> (error + number option) \<times> request list" where
  "fetch_historical cfg w twoYearsAgo =
     (if truthy (COINGECKO_API_KEY cfg) then
        (let historicalUrl = historical_request cfg (twoYearsAgo div 1000) in
         ((case fetch w historicalUrl of
            Inl e \<Rightarrow> Inl e
          | Inr histRes \<Rightarrow>
              if ok histRes then
                (case json histRes of
                   Inl e \<Rightarrow> Inl e
                 | Inr histJson \<Rightarrow>
                     (case opt_prop (Some histJson) ''prices'' of
                        Some (JArr prices) \<Rightarrow>
                          if length prices > 0
                          then Inr (pickClosestPrice prices (real_of_int twoYearsAgo))
                          else Inr None
                      | _ \<Rightarrow> Inr None))
              else if status histRes \<noteq> 401
              then Inl (Error ''Error'' (''CoinGecko historical price error: '' @ status_line histRes))
              else Inr None),
          [historicalUrl]))
      else (Inr None, []))"

definition coinbase_request :: "int \<Rightarrow> request" where
  "coinbase_request twoYearsAgo =
     (let windowDays = 14;
          start = twoYearsAgo;
          end = twoYearsAgo + windowDays * 86400 * 1000
      in Request (CoinbaseCandles 86400 start end) [(''User-Agent'', ''mining-calculator-vercel'')])"

text \<open>Lines 122-147: the fallback to daily candles.\<close>

definition fetch_candles :: "world \<Rightarrow> int \<Rightarrow> error + number" where
  "fetch_candles w twoYearsAgo =
     (case fetch w (coinbase_request twoYearsAgo) of
        Inl e \<Rightarrow> Inl e
      | Inr cbRes \<Rightarrow>
          if \<not> ok cbRes
          then Inl (Error ''Error'' (''Coinbase candles error: '' @ status_line cbRes))
          else (case json cbRes of
                  Inl e \<Rightarrow> Inl e
                | Inr (JArr candles) \<Rightarrow>
                    if length candles = 0
                    then Inl (Error ''Error'' ''No candles returned from Coinbase for historical price'')
                    else (case positive_number
                                 (pickClosestCandleClose candles (real_of_int (twoYearsAgo div 1000))) of
                            None \<Rightarrow> Inl (Error ''Error''
                                ''Unable to determine historical price from Coinbase candles payload'')
                          | Some historicalPrice \<Rightarrow> Inr historicalPrice)
                | Inr _ \<Rightarrow> Inl (Error ''Error'' ''No candles returned from Coinbase for historical price'')))"

text \<open>Lines 87-89: the target instant, two calendar years before the clock's reading.\<close>

definition two_years_before :: "world \<Rightarrow> int" where
  "two_years_before w =
     setFullYear (LocalTZA w) (clock w) (getFullYear (LocalTZA w) (clock w) - 2)"

text \<open>Lines 150-154.\<close>

definition make_payload :: "number \<Rightarrow> number \<Rightarrow> int \<Rightarrow> payload" where
  "make_payload currentPrice historicalPrice twoYearsAgo =
     \<lparr> currentPriceUsd = Math_round currentPrice,
       historicalPriceUsd = Math_round historicalPrice,
       historicalTargetDate = toISOString twoYearsAgo \<rparr>"

text \<open>The whole function: the payload returned or the error thrown, and the requests sent
  upstream, in order.\<close>

definition fetchFromCoinGecko :: "config \<Rightarrow> world \<Rightarrow> (error + payload) \<times> request list" where
  "fetchFromCoinGecko cfg w =
     (case fetch_current cfg w of
        Inl e \<Rightarrow> (Inl e, [current_request cfg])
      | Inr currentPrice \<Rightarrow>
          (let twoYearsAgo = two_years_before w in
           (case fetch_historical cfg w twoYearsAgo of
              (Inl e, sent) \<Rightarrow> (Inl e, current_request cfg # sent)
            | (Inr historicalPrice, sent) \<Rightarrow>
                (case positive_number historicalPrice of
                   Some h \<Rightarrow>
                     (Inr (make_payload currentPrice h twoYearsAgo), current_request cfg # sent)
                 | None \<Rightarrow>
                     (case fetch_candles w twoYearsAgo of
                        Inl e \<Rightarrow>
                          (Inl e, current_request cfg # sent @ [coinbase_request twoYearsAgo])
                      | Inr h \<Rightarrow>
                          (Inr (make_payload currentPrice h twoYearsAgo),
                           current_request cfg # sent @ [coinbase_request twoYearsAgo]))))))"

section \<open>Responses of the route\<close>

text \<open>A response: status, body (the value given to \<^verbatim>\<open>NextResponse.json\<close>) and headers.
  \<^verbatim>\<open>headers.set\<close> replaces the value of a header that is present and appends a new one.\<close>

record NextResponse =
  http_status :: nat
  json_body :: json
  headers :: "(string \<times> string) list"

fun headers_set :: "(string \<times> string) list \<Rightarrow> string \<Rightarrow> string \<Rightarrow> (string \<times> string) list" where
  "headers_set [] k v = [(k, v)]"
| "headers_set ((k', v') # hs) k v =
     (if k' = k then (k, v) # hs else (k', v') # headers_set hs k v)"

definition headers_get :: "(string \<times> string) list \<Rightarrow> string \<Rightarrow> string option" where
  "headers_get hs k = map_of hs k"

text \<open>\<^verbatim>\<open>NextResponse.json(body, { status })\<close>\<close>

definition NextResponse_json :: "json \<Rightarrow> nat \<Rightarrow> NextResponse" where
  "NextResponse_json body st =
     \<lparr> http_status = st, json_body = body,
       headers = [(''content-type'', ''application/json'')] \<rparr>"

text \<open>The payload as the JSON document sent; \<^verbatim>\<open>JSON.stringify\<close> writes an infinity as
  \<^verbatim>\<open>null\<close>.\<close>

definition stringify_number :: "number \<Rightarrow> json" where
  "stringify_number n = (if is_finite n then JNum n else JNull)"

definition payload_json :: "payload \<Rightarrow> json" where
  "payload_json p =
     JObj [(''currentPriceUsd'', stringify_number (currentPriceUsd p)),
           (''historicalPriceUsd'', stringify_number (historicalPriceUsd p)),
           (''historicalTargetDate'', JStr (historicalTargetDate p))]"

definition okJson :: "config \<Rightarrow> payload \<Rightarrow> string \<Rightarrow> NextResponse" where
  "okJson cfg p cacheStatus =
     (let res = NextResponse_json (payload_json p) 200
      in res\<lparr> headers :=
           headers_set
             (headers_set (headers res) ''Cache-Control''
                (''public, s-maxage='' @ decimal_of_int (CACHE_TTL_SECONDS cfg) @
                 '', stale-while-revalidate=86400''))
             ''x-cache'' cacheStatus \<rparr>)"

definition errJson :: "string \<Rightarrow> nat \<Rightarrow> string \<Rightarrow> NextResponse" where
  "errJson msg st cacheStatus =
     (let res = NextResponse_json (JObj [(''error'', JStr msg)]) st
      in res\<lparr> headers :=
           headers_set
             (headers_set (headers res) ''Cache-Control''
                ''public, s-maxage=30, stale-while-revalidate=300'')
             ''x-cache'' cacheStatus \<rparr>)"

text \<open>\<^verbatim>\<open>e?.message || `Server error fetching CoinGecko prices: ${String(e)}`\<close>; the string
  of an error with an empty message is its name.\<close>

definition catch_message :: "error \<Rightarrow> string" where
  "catch_message e =
     (if message e \<noteq> [] then message e
      else ''Server error fetching CoinGecko prices: '' @ name e)"

section \<open>The route handler \<^verbatim>\<open>GET\<close> and the module state\<close>

record cache_entry =
  payload :: payload
  cachedAtMs :: int

text \<open>The two module variables.  A pending promise is represented by the callers
  suspended at \<^verbatim>\<open>await inFlight\<close>, in the order they arrived.  \<open>pipeline_runs\<close> is not in
  the program: it counts the calls of \<^verbatim>\<open>fetchFromCoinGecko\<close> made so far.\<close>

record state =
  cachedValue :: "cache_entry option"
  inFlight :: "nat list option"
  pipeline_runs :: nat

definition initial_state :: state where
  "initial_state = \<lparr> cachedValue = None, inFlight = None, pipeline_runs = 0 \<rparr>"

text \<open>The test of lines 164-169: the stored payload when the entry is fresh.  A stored
  entry always has a numeric time and a payload object, so only the comparison can fail.\<close>

definition fresh_payload :: "config \<Rightarrow> state \<Rightarrow> int \<Rightarrow> payload option" where
  "fresh_payload cfg s now =
     (case cachedValue s of
        None \<Rightarrow> None
      | Some cv \<Rightarrow>
          if now - cachedAtMs cv < CACHE_TTL_SECONDS cfg * 1000 then Some (payload cv) else None)"

definition cache_fresh :: "config \<Rightarrow> state \<Rightarrow> int \<Rightarrow> bool" where
  "cache_fresh cfg s now = (fresh_payload cfg s now \<noteq> None)"

text \<open>The handler runs on one thread.  A call of \<^verbatim>\<open>GET\<close> runs without interruption from
  line 161 to its \<^verbatim>\<open>return\<close> on line 170 or to \<^verbatim>\<open>await inFlight\<close> on line 185; the
  pipeline touches neither module variable; and when the pipeline settles, the rest of the
  refresh (lines 177-181) and the resumption of every suspended caller (lines 186-188) run
  before any new call is taken.  So the behaviour is a sequence of two kinds of events.\<close>

datatype event =
    Call nat int
  | Settle world int

type_synonym replies = "(nat \<times> NextResponse) list"

text \<open>\<open>Call caller now\<close>: lines 161-185 for a caller, \<^verbatim>\<open>Date.now()\<close> reading \<open>now\<close>.\<close>

definition GET_call :: "config \<Rightarrow> nat \<Rightarrow> int \<Rightarrow> state \<Rightarrow> state \<times> replies" where
  "GET_call cfg caller now s =
     (case fresh_payload cfg s now of
        Some p \<Rightarrow> (s, [(caller, okJson cfg p ''HIT'')])
      | None \<Rightarrow>
          (case inFlight s of
             None \<Rightarrow>
               (s\<lparr> inFlight := Some [caller], pipeline_runs := pipeline_runs s + 1 \<rparr>, [])
           | Some callers \<Rightarrow>
               (s\<lparr> inFlight := Some (callers @ [caller]) \<rparr>, [])))"

text \<open>Lines 184-189 for a caller resumed with the outcome of the refresh.\<close>

definition GET_resume :: "config \<Rightarrow> error + payload \<Rightarrow> NextResponse" where
  "GET_resume cfg outcome =
     (case outcome of
        Inr p \<Rightarrow> okJson cfg p ''MISS''
      | Inl e \<Rightarrow> errJson (catch_message e) 502 ''MISS'')"

text \<open>\<open>Settle w now\<close>: the pipeline of the pending refresh, run in the world \<open>w\<close>, settles
  while \<^verbatim>\<open>Date.now()\<close> reads \<open>now\<close>.  Lines 177-181, then every suspended caller resumes.
  With no refresh pending there is nothing to settle, and the state stays as it is.\<close>

definition GET_settle :: "config \<Rightarrow> world \<Rightarrow> int \<Rightarrow> state \<Rightarrow> state \<times> replies" where
  "GET_settle cfg w now s =
     (case inFlight s of
        None \<Rightarrow> (s, [])
      | Some awaiting \<Rightarrow>
          (let outcome = fst (fetchFromCoinGecko cfg w);
               s' = (case outcome of
                       Inr p \<Rightarrow> s\<lparr> cachedValue := Some \<lparr> payload = p, cachedAtMs = now \<rparr> \<rparr>
                     | Inl e \<Rightarrow> s)
           in (s'\<lparr> inFlight := None \<rparr>, map (\<lambda>caller. (caller, GET_resume cfg outcome)) awaiting)))"

fun step :: "config \<Rightarrow> event \<Rightarrow> state \<Rightarrow> state \<times> replies" where
  "step cfg (Call caller now) s = GET_call cfg caller now s"
| "step cfg (Settle w now) s = GET_settle cfg w now s"

fun run :: "config \<Rightarrow> event list \<Rightarrow> state \<Rightarrow> state \<times> replies" where
  "run cfg [] s = (s, [])"
| "run cfg (ev # evs) s =
     (let (s', out) = step cfg ev s;
          (s'', out') = run cfg evs s'
      in (s'', out @ out'))"

section \<open>Notions used to state the properties of the pipeline\<close>

text \<open>The price of a primary response body, \<^verbatim>\<open>currentJson?.bitcoin?.usd\<close>, when it is a
  number.\<close>

definition primary_price :: "json \<Rightarrow> number option" where
  "primary_price body = json_number (opt_prop (opt_prop (Some body) ''bitcoin'') ''usd'')"


text \<open>\<open>n\<close> is a finite integer not below \<open>k\<close>.\<close>

definition integer_at_least :: "int \<Rightarrow> number \<Rightarrow> bool" where
  "integer_at_least k n =
     (case n of Fin r \<Rightarrow> of_int \<lfloor>r\<rfloor> = r \<and> of_int k \<le> r | _ \<Rightarrow> False)"

text \<open>\<open>y\<close> is what a positive fetched number \<open>x\<close> becomes in the payload: for a finite
  \<open>x\<close> a non-negative integer, 0 exactly when \<open>x\<close> is below one half and at least 1
  exactly when \<open>x\<close> is at least one half; \<^verbatim>\<open>Infinity\<close> for an infinite \<open>x\<close>.\<close>

definition rounded_price :: "number \<Rightarrow> number \<Rightarrow> bool" where
  "rounded_price x y =
     (case x of
        Fin r \<Rightarrow>
          integer_at_least 0 y \<and> (y = Fin 0 \<longleftrightarrow> r < 1 / 2) \<and>
          (integer_at_least 1 y \<longleftrightarrow> 1 / 2 \<le> r)
      | PosInf \<Rightarrow> y = PosInf
      | NegInf \<Rightarrow> False)"

text \<open>\<open>y\<close> is \<open>x\<close> rounded to a nearest integer (an infinity stays as it is).\<close>

definition nearest_integer :: "number \<Rightarrow> number \<Rightarrow> bool" where
  "nearest_integer x y =
     (case (x, y) of
        (Fin r, Fin s) \<Rightarrow> of_int \<lfloor>s\<rfloor> = s \<and> \<bar>s - r\<bar> \<le> 1 / 2
      | _ \<Rightarrow> y = x)"

section \<open>Notions used to state the properties of the route\<close>

text \<open>The callers suspended on the pending refresh, and the events of a list of arrivals
  (caller, reading of \<^verbatim>\<open>Date.now()\<close>).\<close>

definition awaiting :: "state \<Rightarrow> nat list" where
  "awaiting s = (case inFlight s of None \<Rightarrow> [] | Some callers \<Rightarrow> callers)"

definition calls :: "(nat \<times> int) list \<Rightarrow> event list" where
  "calls arrivals = map (\<lambda>(caller, now). Call caller now) arrivals"

section \<open>Sample configurations and worlds\<close>

text \<open>A world whose clock reads 2023-11-14T22:13:20Z in a host on UTC, and whose three
  upstream services answer with the given body and responses.  The candles are daily
  candles \<^verbatim>\<open>[time, low, high, open, close, volume]\<close>, newest first.\<close>

definition primary_body :: "number \<Rightarrow> json" where
  "primary_body usd = JObj [(''bitcoin'', JObj [(''usd'', JNum usd)])]"

definition sample_candles :: json where
  "sample_candles =
     JArr [JArr [JNum (Fin 1637020800), JNum (Fin 58500), JNum (Fin 63700), JNum (Fin 63600.4),
                 JNum (Fin 60100.6), JNum (Fin 15000)],
           JArr [JNum (Fin 1636934400), JNum (Fin 63500), JNum (Fin 66300.5), JNum (Fin 65500.1),
                 JNum (Fin 63600.4), JNum (Fin 12000.5)]]"

definition sample_world :: "json \<Rightarrow> response \<Rightarrow> response \<Rightarrow> world" where
  "sample_world currentJson histRes cbRes =
     \<lparr> fetch = (\<lambda>req. case req of
                  Request (SimplePrice b) hs \<Rightarrow> Inr (Response 200 ''OK'' (Inr currentJson))
                | Request (MarketChartRange b fromSec toSec) hs \<Rightarrow> Inr histRes
                | Request (CoinbaseCandles g start end) hs \<Rightarrow> Inr cbRes),
       clock = 1700000000000,
       LocalTZA = (\<lambda>t isUTC. 0) \<rparr>"

definition config_with_key :: config where
  "config_with_key =
     \<lparr> BTC_PRICE_CACHE_TTL_SECONDS = None, COINGECKO_BASE_URL = None,
       COINGECKO_API_KEY = Some ''demo-key'' \<rparr>"

definition config_without_key :: config where
  "config_without_key =
     \<lparr> BTC_PRICE_CACHE_TTL_SECONDS = None, COINGECKO_BASE_URL = None,
       COINGECKO_API_KEY = None \<rparr>"

definition penny_candles :: json where
  "penny_candles =
     JArr [JArr [JNum (Fin 1636934400), JNum (Fin 0.2), JNum (Fin 0.4), JNum (Fin 0.3),
                 JNum (Fin 0.3), JNum (Fin 12000.5)]]"


definition unauthorized :: response where
  "unauthorized = Response 401 ''Unauthorized'' (Inr JNull)"

definition server_error :: response where
  "server_error = Response 500 ''Internal Server Error'' (Inr JNull)"

definition candles_ok :: "json \<Rightarrow> response" where
  "candles_ok body = Response 200 ''OK'' (Inr body)"

text \<open>The payload of the sample run, a world whose run succeeds and one whose run fails,
  a server with a stored entry, and a server with a refresh pending for two callers.\<close>

definition sample_payload :: payload where
  "sample_payload =
     \<lparr> currentPriceUsd = Fin 65001, historicalPriceUsd = Fin 63600,
       historicalTargetDate = ''2021-11-14T22:13:20.000Z'' \<rparr>"

definition good_world :: world where
  "good_world = sample_world (primary_body (Fin 65000.7)) unauthorized (candles_ok sample_candles)"

definition bad_world :: world where
  "bad_world = sample_world (primary_body (Fin 65000.7)) server_error (candles_ok sample_candles)"

definition warm_state :: state where
  "warm_state =
     \<lparr> cachedValue = Some \<lparr> payload = sample_payload, cachedAtMs = 1700000000000 \<rparr>,
       inFlight = None, pipeline_runs = 1 \<rparr>"

definition pending_state :: state where
  "pending_state =
     \<lparr> cachedValue = Some \<lparr> payload = sample_payload, cachedAtMs = 1600000000000 \<rparr>,
       inFlight = Some [4, 5], pipeline_runs = 2 \<rparr>"

section \<open>Properties of the selection\<close>

lemma price_loop_scan:
  "pickClosestPrice_loop prices t c d = closest_scan (price_candidates prices) t c d"
  by (induction prices arbitrary: c d)
     (simp_all add: price_candidates_def time_diff_def Let_def split: option.splits)

lemma candle_loop_scan:
  "pickClosestCandleClose_loop candles t c d = closest_scan (candle_candidates candles) t c d"
  by (induction candles arbitrary: c d)
     (simp_all add: candle_candidates_def time_diff_def Let_def split: option.splits)

lemma time_diff_less_PosInf: "time_diff t ts < PosInf \<longleftrightarrow> is_finite (time_diff t ts)"
  by (cases "minus_finite ts t") (simp_all add: time_diff_def less_number_def)

lemma time_diff_infinite: "\<not> is_finite ts \<Longrightarrow> time_diff t ts = PosInf"
  by (cases ts) (simp_all add: time_diff_def)

lemma closest_scan_none_closer:
  "\<forall>x \<in> set cands. \<not> time_diff t (fst x) < d \<Longrightarrow> closest_scan cands t c d = c"
proof (induction cands arbitrary: c d)
  case Nil
  show ?case by simp
next
  case (Cons x cands)
  obtain tx vx where x: "x = (tx, vx)" by (cases x)
  from Cons.prems have "\<not> time_diff t tx < d" by (simp add: x)
  moreover from Cons.prems have "closest_scan cands t c d = c" by (intro Cons.IH) simp
  ultimately show ?case by (simp add: x)
qed

lemma closest_scan_split:
  "closest_split t d before ts after \<Longrightarrow> closest_scan (before @ (ts, v) # after) t c d = Some v"
proof (induction before arbitrary: c d)
  case Nil
  then have "\<forall>x \<in> set after. \<not> time_diff t (fst x) < time_diff t ts"
    by (simp add: closest_split_def not_less)
  then have "closest_scan after t (Some v) (time_diff t ts) = Some v"
    by (rule closest_scan_none_closer)
  with Nil show ?case by (simp add: closest_split_def)
next
  case (Cons x before)
  obtain tx vx where x: "x = (tx, vx)" by (cases x)
  from Cons.prems have lt: "time_diff t ts < time_diff t tx"
    by (simp add: closest_split_def x)
  from Cons.prems have 1: "closest_split t d before ts after"
    by (simp add: closest_split_def)
  from Cons.prems lt have 2: "closest_split t (time_diff t tx) before ts after"
    by (simp add: closest_split_def)
  show ?case
    using Cons.IH [OF 1, of c] Cons.IH [OF 2, of "Some vx"] by (simp add: x)
qed

lemma closest_split_exists:
  "(\<forall>x \<in> set cands. \<not> time_diff t (fst x) < d) \<or>
   (\<exists>before ts v after. cands = before @ (ts, v) # after \<and> closest_split t d before ts after)"
proof (induction cands arbitrary: d)
  case Nil
  show ?case by simp
next
  case (Cons x cands)
  obtain tx vx where x: "x = (tx, vx)" by (cases x)
  let ?n = "time_diff t tx"
  show ?case
  proof (cases "?n < d")
    case True
    show ?thesis
    proof (cases "\<forall>y \<in> set cands. \<not> time_diff t (fst y) < ?n")
      case far: True
      have "x # cands = [] @ (tx, vx) # cands" by (simp add: x)
      moreover have "closest_split t d [] tx cands"
        using True far by (simp add: closest_split_def not_less)
      ultimately show ?thesis by blast
    next
      case False
      with Cons.IH [of ?n] obtain before ts v after
        where split: "cands = before @ (ts, v) # after"
          and cl: "closest_split t ?n before ts after" by blast
      have "x # cands = (x # before) @ (ts, v) # after" by (simp add: split)
      moreover have "time_diff t ts < d"
        using cl True by (auto simp: closest_split_def intro: less_trans)
      then have "closest_split t d (x # before) ts after"
        using cl by (simp add: closest_split_def x)
      ultimately show ?thesis by blast
    qed
  next
    case nlt: False
    show ?thesis
    proof (cases "\<forall>y \<in> set cands. \<not> time_diff t (fst y) < d")
      case True
      with nlt show ?thesis by (simp add: x)
    next
      case False
      with Cons.IH [of d] obtain before ts v after
        where split: "cands = before @ (ts, v) # after"
          and cl: "closest_split t d before ts after" by blast
      have "x # cands = (x # before) @ (ts, v) # after" by (simp add: split)
      moreover have "closest_split t d (x # before) ts after"
        using cl nlt by (auto simp: closest_split_def x)
      ultimately show ?thesis by blast
    qed
  qed
qed

lemma first_minimal_append:
  "first_minimal f cands ts v \<longleftrightarrow>
   (\<exists>before after.
      cands = before @ (ts, v) # after \<and>
      (\<forall>c \<in> set before. f ts < f (fst c)) \<and>
      (\<forall>c \<in> set after. f ts \<le> f (fst c)))"
proof
  assume "first_minimal f cands ts v"
  then obtain i where i: "i < length cands" and at: "cands ! i = (ts, v)"
    and b: "\<forall>c \<in> set (take i cands). f ts < f (fst c)"
    and a: "\<forall>c \<in> set (drop (Suc i) cands). f ts \<le> f (fst c)"
    unfolding first_minimal_def by auto
  from i have "cands = take i cands @ cands ! i # drop (Suc i) cands"
    by (rule id_take_nth_drop)
  with at have "cands = take i cands @ (ts, v) # drop (Suc i) cands"
    by simp
  with a b show "\<exists>before after.
      cands = before @ (ts, v) # after \<and>
      (\<forall>c \<in> set before. f ts < f (fst c)) \<and>
      (\<forall>c \<in> set after. f ts \<le> f (fst c))"
    by blast
next
  assume "\<exists>before after.
      cands = before @ (ts, v) # after \<and>
      (\<forall>c \<in> set before. f ts < f (fst c)) \<and>
      (\<forall>c \<in> set after. f ts \<le> f (fst c))"
  then obtain before after where split: "cands = before @ (ts, v) # after"
    and b: "\<forall>c \<in> set before. f ts < f (fst c)"
    and a: "\<forall>c \<in> set after. f ts \<le> f (fst c)"
    by blast
  have "length before \<in> set [0..<length cands]"
    by (simp add: split)
  moreover have "cands ! length before = (ts, v)"
    by (simp add: split)
  moreover have "take (length before) cands = before" "drop (Suc (length before)) cands = after"
    by (simp_all add: split)
  ultimately show "first_minimal f cands ts v"
    unfolding first_minimal_def using a b by (intro bexI [of _ "length before"]) simp_all
qed

lemma first_minimal_cong:
  assumes "\<forall>c \<in> set cands. f (fst c) = g (fst c)"
  shows "first_minimal f cands ts v \<longleftrightarrow> first_minimal g cands ts v"
proof -
  have "(\<forall>c \<in> set before. f ts < f (fst c)) \<and> (\<forall>c \<in> set after. f ts \<le> f (fst c)) \<longleftrightarrow>
        (\<forall>c \<in> set before. g ts < g (fst c)) \<and> (\<forall>c \<in> set after. g ts \<le> g (fst c))"
    if "cands = before @ (ts, v) # after" for before after
  proof -
    from that assms have "f ts = g ts"
      and "\<forall>c \<in> set before. f (fst c) = g (fst c)"
      and "\<forall>c \<in> set after. f (fst c) = g (fst c)"
      by auto
    then show ?thesis by simp
  qed
  then show ?thesis unfolding first_minimal_append by blast
qed

lemma first_minimal_split:
  "(is_finite (time_diff t ts) \<and> first_minimal (time_diff t) cands ts v) \<longleftrightarrow>
   (\<exists>before after. cands = before @ (ts, v) # after \<and> closest_split t PosInf before ts after)"
  unfolding first_minimal_append closest_split_def time_diff_less_PosInf by blast

lemma closest_scan_Some:
  "closest_scan cands t None PosInf = Some v \<longleftrightarrow> (\<exists>ts. is_finite (time_diff t ts) \<and> first_minimal (time_diff t) cands ts v)"
proof
  assume r: "closest_scan cands t None PosInf = Some v"
  from closest_split_exists [of cands t PosInf] show "\<exists>ts. is_finite (time_diff t ts) \<and> first_minimal (time_diff t) cands ts v"
  proof
    assume "\<forall>x \<in> set cands. \<not> time_diff t (fst x) < PosInf"
    then have "closest_scan cands t None PosInf = None" by (rule closest_scan_none_closer)
    with r show ?thesis by simp
  next
    assume "\<exists>before ts v after. cands = before @ (ts, v) # after \<and> closest_split t PosInf before ts after"
    then obtain before ts v' after where split: "cands = before @ (ts, v') # after"
      and cl: "closest_split t PosInf before ts after" by blast
    from closest_scan_split [OF cl, of v' None] split r have "v' = v" by simp
    with split cl have "is_finite (time_diff t ts) \<and> first_minimal (time_diff t) cands ts v"
      unfolding first_minimal_split by blast
    then show ?thesis ..
  qed
next
  assume "\<exists>ts. is_finite (time_diff t ts) \<and> first_minimal (time_diff t) cands ts v"
  then obtain ts before after where "cands = before @ (ts, v) # after"
    and "closest_split t PosInf before ts after"
    unfolding first_minimal_split by blast
  then show "closest_scan cands t None PosInf = Some v"
    by (simp add: closest_scan_split)
qed

lemma closest_scan_None:
  "closest_scan cands t None PosInf = None \<longleftrightarrow> (\<forall>x \<in> set cands. \<not> is_finite (time_diff t (fst x)))"
proof
  assume r: "closest_scan cands t None PosInf = None"
  from closest_split_exists [of cands t PosInf] show "\<forall>x \<in> set cands. \<not> is_finite (time_diff t (fst x))"
  proof
    assume "\<forall>x \<in> set cands. \<not> time_diff t (fst x) < PosInf"
    then show ?thesis by (simp add: time_diff_less_PosInf)
  next
    assume "\<exists>before ts v after. cands = before @ (ts, v) # after \<and> closest_split t PosInf before ts after"
    then obtain before ts v' after where split: "cands = before @ (ts, v') # after"
      and cl: "closest_split t PosInf before ts after" by blast
    from closest_scan_split [OF cl, of v' None] split r show ?thesis by simp
  qed
next
  assume "\<forall>x \<in> set cands. \<not> is_finite (time_diff t (fst x))"
  then have "\<forall>x \<in> set cands. \<not> time_diff t (fst x) < PosInf" by (simp add: time_diff_less_PosInf)
  then show "closest_scan cands t None PosInf = None" by (rule closest_scan_none_closer)
qed

lemma price_fields_well_formed: "price_fields e = None \<longleftrightarrow> \<not> well_formed 2 1 e"
  by (cases e) (auto simp: well_formed_def is_number_def split: json.splits)

lemma candle_fields_well_formed: "candle_fields e = None \<longleftrightarrow> \<not> well_formed 5 4 e"
  by (cases e) (auto simp: well_formed_def is_number_def split: json.splits)

lemma price_candidates_filter:
  "price_candidates (filter (well_formed 2 1) prices) = price_candidates prices"
proof (induction prices)
  case Nil
  show ?case by simp
next
  case (Cons e prices)
  then show ?case
    using price_fields_well_formed [of e]
    by (cases "price_fields e") (simp_all add: price_candidates_def)
qed

lemma candle_candidates_filter:
  "candle_candidates (filter (well_formed 5 4) candles) = candle_candidates candles"
proof (induction candles)
  case Nil
  show ?case by simp
next
  case (Cons e candles)
  then show ?case
    using candle_fields_well_formed [of e]
    by (cases "candle_fields e") (simp_all add: candle_candidates_def)
qed

lemma bit_length_nonneg: "0 \<le> bit_length n"
proof (induction n rule: bit_length.induct)
  case (1 n)
  show ?case
  proof (cases "n \<le> 0")
    case True
    then show ?thesis by (subst bit_length.simps) simp
  next
    case False
    with 1 have "0 \<le> bit_length (n div 2)" by simp
    with False show ?thesis by (subst bit_length.simps) simp
  qed
qed

lemma bit_length_positive: "0 < n \<Longrightarrow> 1 \<le> bit_length n"
  using bit_length_nonneg [of "n div 2"] by (subst bit_length.simps) simp

lemma bit_length_le: "n < 2 ^ k \<Longrightarrow> bit_length n \<le> int k"
proof (induction k arbitrary: n)
  case 0
  then show ?case by (subst bit_length.simps) simp
next
  case (Suc k)
  show ?case
  proof (cases "n \<le> 0")
    case True
    then show ?thesis by (subst bit_length.simps) simp
  next
    case False
    from Suc.prems have "n div 2 < 2 ^ k" by simp
    then have "bit_length (n div 2) \<le> int k" by (rule Suc.IH)
    with False show ?thesis by (subst bit_length.simps) simp
  qed
qed

lemma round_half_even_of_int: "round_half_even (of_int n) = n"
  by (simp add: round_half_even_def)

lemma round_to_double_of_int:
  assumes "\<bar>n\<bar> < 2 ^ 53"
  shows "round_to_double (of_int n) = Fin (of_int n)"
proof (cases "n = 0")
  case True
  then show ?thesis by (simp add: round_to_double_def)
next
  case False
  define b where "b = bit_length \<bar>n\<bar>"
  define k where "k = nat (53 - b)"
  from False have "1 \<le> b" unfolding b_def by (intro bit_length_positive) simp
  moreover from assms have "b \<le> 53" unfolding b_def using bit_length_le [of "\<bar>n\<bar>" 53] by simp
  ultimately have e: "max (b - 1 - 52) (- 1074) = - int k" and k: "int k = 53 - b"
    unfolding k_def by simp_all
  from False have x0: "(of_int n :: real) \<noteq> 0"
    by simp
  from False have "1 \<le> \<bar>n\<bar>"
    by simp
  then have "(1::real) \<le> of_int \<bar>n\<bar>"
    by (simp only: of_int_1_le_iff)
  then have l: "ilog2 \<bar>of_int n\<bar> = b - 1"
    by (simp add: ilog2_def b_def flip: of_int_abs)
  have e': "max (ilog2 \<bar>of_int n\<bar> - 52) (- 1074) = - int k"
    by (simp only: l e)
  have s: "scale2 (- int k) = 1 / 2 ^ k"
    by (simp add: scale2_def)
  have "of_int n / scale2 (- int k) = (of_int (n * 2 ^ k) :: real)"
    by (simp add: s)
  then have m: "round_half_even (of_int n / scale2 (- int k)) = n * 2 ^ k"
    by (simp only: round_half_even_of_int)
  have scaled: "(of_int (n * 2 ^ k) :: real) * scale2 (- int k) = of_int n"
    by (simp add: s)
  have "round_to_double (of_int n) =
      (if 971 < - int k \<or> (- int k = 971 \<and> 9007199254740992 \<le> \<bar>n * 2 ^ k\<bar>)
       then (if 0 < (of_int n :: real) then PosInf else NegInf)
       else Fin (of_int (n * 2 ^ k) * scale2 (- int k)))"
    by (simp only: round_to_double_def Let_def e' m x0 if_False)
  also have "\<dots> = Fin (of_int n)"
    by (simp only: scaled) simp
  finally show ?thesis .
qed

lemma time_diff_whole:
  assumes "\<bar>a - b\<bar> < 2 ^ 53"
  shows "time_diff (of_int b) (Fin (of_int a)) = Fin \<bar>of_int a - of_int b\<bar>"
proof -
  have "round_to_double (of_int a - of_int b) = round_to_double (of_int (a - b))"
    by simp
  also have "\<dots> = Fin (of_int (a - b))"
    using assms by (rule round_to_double_of_int)
  finally show ?thesis by (simp add: time_diff_def)
qed

lemma whole_times_diff:
  assumes "whole_times target cands" and "c \<in> set cands"
  shows "time_diff target (fst c) = exact_diff target (fst c)"
proof (cases "fst c")
  case (Fin r)
  from assms Fin have t: "of_int \<lfloor>target\<rfloor> = target" and r: "of_int \<lfloor>r\<rfloor> = r"
    and d: "\<bar>r - target\<bar> < 2 ^ 53"
    by (auto simp: whole_times_def)
  from d have "\<bar>(of_int \<lfloor>r\<rfloor> :: real) - of_int \<lfloor>target\<rfloor>\<bar> < 2 ^ 53"
    by (simp only: t r)
  then have "(of_int \<bar>\<lfloor>r\<rfloor> - \<lfloor>target\<rfloor>\<bar> :: real) < of_int (2 ^ 53)"
    by simp
  then have "\<bar>\<lfloor>r\<rfloor> - \<lfloor>target\<rfloor>\<bar> < 2 ^ 53"
    by (simp only: of_int_less_iff)
  then have "time_diff (of_int \<lfloor>target\<rfloor>) (Fin (of_int \<lfloor>r\<rfloor>)) =
      Fin \<bar>of_int \<lfloor>r\<rfloor> - of_int \<lfloor>target\<rfloor>\<bar>"
    by (rule time_diff_whole)
  then show ?thesis by (simp add: t r Fin exact_diff_def)
qed (simp_all add: time_diff_def exact_diff_def)

lemma round_to_double_offsets:
  "round_to_double (- 5000) = Fin (- 5000)" "round_to_double (- 10) = Fin (- 10)"
  "round_to_double 10 = Fin 10" "round_to_double 9999 = Fin 9999"
  using round_to_double_of_int [of "- 5000"] round_to_double_of_int [of "- 10"]
    round_to_double_of_int [of 10] round_to_double_of_int [of 9999]
  by simp_all

lemma Fin_less [simp]: "Fin a < Fin b \<longleftrightarrow> a < b"
  by (auto simp: less_number_def)

lemma Fin_less_PosInf [simp]: "Fin a < PosInf"
  by (simp add: less_number_def)

lemma not_PosInf_less [simp]: "\<not> PosInf < x"
  by (cases x) (simp_all add: less_number_def)

lemma pickClosestPrice_offsets:
  "pickClosestPrice
     [JArr [JNum (Fin (targetMs - 5000)), JNum a], JArr [JNum (Fin (targetMs - 10)), JNum b],
      JArr [JNum (Fin (targetMs + 10)), JNum c], JArr [JNum (Fin (targetMs + 9999)), JNum d]]
     targetMs = Some b"
  by (simp add: pickClosestPrice_def round_to_double_offsets)

lemma pickClosestPrice_tie:
  "pickClosestPrice
     [JArr [JNum (Fin (targetMs + 10)), JNum c], JArr [JNum (Fin (targetMs - 10)), JNum b]]
     targetMs = Some c"
  by (simp add: pickClosestPrice_def round_to_double_offsets)

lemma pickClosestCandleClose_offsets:
  "pickClosestCandleClose
     [JArr [JNum (Fin (targetSec - 5000)), l, h, o1, JNum a],
      JArr [JNum (Fin (targetSec - 10)), l, h, o1, JNum b],
      JArr [JNum (Fin (targetSec + 10)), l, h, o1, JNum c],
      JArr [JNum (Fin (targetSec + 9999)), l, h, o1, JNum d]]
     targetSec = Some b"
  by (simp add: pickClosestCandleClose_def round_to_double_offsets)

lemma pickClosestCandleClose_tie:
  "pickClosestCandleClose
     [JArr [JNum (Fin (targetSec + 10)), l, h, o1, JNum c],
      JArr [JNum (Fin (targetSec - 10)), l, h, o1, JNum b]]
     targetSec = Some c"
  by (simp add: pickClosestCandleClose_def round_to_double_offsets)

lemma pickClosestPrice_Some:
  "pickClosestPrice prices targetMs = Some price \<longleftrightarrow>
     (\<exists>ts. is_finite (time_diff targetMs ts) \<and>
        first_minimal (time_diff targetMs) (price_candidates prices) ts price)"
  by (simp add: pickClosestPrice_def price_loop_scan closest_scan_Some)

lemma pickClosestCandleClose_Some:
  "pickClosestCandleClose candles targetSec = Some close \<longleftrightarrow>
     (\<exists>timeSec. is_finite (time_diff targetSec timeSec) \<and>
        first_minimal (time_diff targetSec) (candle_candidates candles) timeSec close)"
  by (simp add: pickClosestCandleClose_def candle_loop_scan closest_scan_Some)

lemma pickClosestPrice_None:
  "pickClosestPrice prices targetMs = None \<longleftrightarrow>
     (\<forall>x \<in> set (price_candidates prices). \<not> is_finite (time_diff targetMs (fst x)))"
  by (simp add: pickClosestPrice_def price_loop_scan closest_scan_None)

lemma pickClosestCandleClose_None:
  "pickClosestCandleClose candles targetSec = None \<longleftrightarrow>
     (\<forall>x \<in> set (candle_candidates candles). \<not> is_finite (time_diff targetSec (fst x)))"
  by (simp add: pickClosestCandleClose_def candle_loop_scan closest_scan_None)


lemma first_minimal_mem: "first_minimal f cands ts v \<Longrightarrow> (ts, v) \<in> set cands"
  unfolding first_minimal_append by auto

lemma whole_times_first_minimal:
  assumes "whole_times target cands"
  shows "(\<exists>ts. is_finite (time_diff target ts) \<and> first_minimal (time_diff target) cands ts v) \<longleftrightarrow>
         (\<exists>ts. is_finite ts \<and> first_minimal (exact_diff target) cands ts v)"
proof -
  have same: "\<forall>c \<in> set cands. time_diff target (fst c) = exact_diff target (fst c)"
    using assms by (simp add: whole_times_diff)
  have fin: "is_finite (time_diff target ts) \<longleftrightarrow> is_finite ts" if "(ts, v) \<in> set cands" for ts
  proof -
    from that same have "time_diff target ts = exact_diff target ts" by force
    then show ?thesis by (cases ts) (simp_all add: exact_diff_def)
  qed
  show ?thesis
    using first_minimal_cong [OF same] fin first_minimal_mem by metis
qed

lemma whole_times_finite:
  assumes "whole_times target cands"
  shows "(\<forall>c \<in> set cands. \<not> is_finite (time_diff target (fst c))) \<longleftrightarrow>
         (\<forall>c \<in> set cands. \<not> is_finite (fst c))"
proof -
  have "is_finite (time_diff target (fst c)) \<longleftrightarrow> is_finite (fst c)" if "c \<in> set cands" for c
  proof -
    from assms that have "time_diff target (fst c) = exact_diff target (fst c)"
      by (rule whole_times_diff)
    then show ?thesis by (cases "fst c") (simp_all add: exact_diff_def)
  qed
  then show ?thesis by blast
qed

text \<open>Powers of two: the binary exponent of \<open>2^n\<close> is \<open>n\<close>, and from \<open>2^1024\<close> on a power of two
  rounds to \<^verbatim>\<open>Infinity\<close>.\<close>

lemma bit_length_power2: "bit_length (2 ^ n) = int n + 1"
proof (induction n)
  case 0
  have "bit_length 1 = 1 + bit_length 0" by (subst bit_length.simps) simp
  also have "bit_length 0 = 0" by (subst bit_length.simps) simp
  finally show ?case by simp
next
  case (Suc n)
  have "bit_length (2 ^ Suc n) = 1 + bit_length (2 ^ Suc n div 2)"
    by (subst bit_length.simps) simp
  also have "(2::int) ^ Suc n div 2 = 2 ^ n" by simp
  finally show ?case using Suc by simp
qed

lemma round_to_double_power2:
  assumes "1024 \<le> n"
  shows "round_to_double (2 ^ n) = PosInf"
proof -
  have f: "\<lfloor>(2::real) ^ n\<rfloor> = 2 ^ n"
    by (metis floor_of_int of_int_numeral of_int_power)
  have "ilog2 \<bar>(2::real) ^ n\<bar> = int n"
    unfolding ilog2_def by (simp add: f bit_length_power2 del: bit_length.simps)
  moreover have "max (int n - 52) (- 1074) = int n - 52" "971 < int n - 52"
    using assms by simp_all
  ultimately show ?thesis
    unfolding round_to_double_def Let_def by (simp del: bit_length.simps)
qed

lemma minus_finite_overflow: "minus_finite (Fin (2 ^ 1023)) (- (2 ^ 1023)) = PosInf"
proof -
  have a: "round_to_double (2 ^ Suc 1023) = PosInf"
    by (rule round_to_double_power2) simp
  have b: "(2::real) ^ 1023 - - (2 ^ 1023) = 2 ^ Suc 1023"
    by simp
  show ?thesis
    by (simp only: minus_finite.simps b a)
qed

text \<open>A subtraction that overflows: \<open>2^1023\<close> and \<open>-2^1023\<close> are doubles, their
  difference \<open>2^1024\<close> is beyond the largest double and is computed as \<^verbatim>\<open>Infinity\<close>, which
  is not less than the initial \<^verbatim>\<open>closestDiff\<close>: the only candidate of the list, a well-formed
  one with a finite timestamp, is not selected.\<close>

lemma pickClosestPrice_overflow:
  "well_formed 2 1 (JArr [JNum (Fin (2 ^ 1023)), JNum (Fin 5)]) \<and>
   is_finite (Fin (2 ^ 1023)) \<and>
   pickClosestPrice [JArr [JNum (Fin (2 ^ 1023)), JNum (Fin 5)]] (- (2 ^ 1023)) = None"
proof -
  have pf: "price_fields (JArr [JNum (Fin (2 ^ 1023)), JNum (Fin 5)]) =
      Some (Fin (2 ^ 1023), Fin 5)"
    by simp
  have "pickClosestPrice [JArr [JNum (Fin (2 ^ 1023)), JNum (Fin 5)]] (- (2 ^ 1023)) =
      (if PosInf < PosInf then Some (Fin 5) else None)"
    by (simp only: pickClosestPrice_def pickClosestPrice_loop.simps pf option.case prod.case
          Let_def minus_finite_overflow Math_abs.simps)
  then have "pickClosestPrice [JArr [JNum (Fin (2 ^ 1023)), JNum (Fin 5)]] (- (2 ^ 1023)) = None"
    by (simp only: less_irrefl if_False)
  then show ?thesis
    by (simp add: well_formed_def is_number_def)
qed

text \<open>
  Claim C3, as amended.  For every list and every target, \<^verbatim>\<open>pickClosestPrice\<close> and
  \<^verbatim>\<open>pickClosestCandleClose\<close> return a value \<open>v\<close> exactly when \<open>v\<close> is the value of the
  well-formed candidate that minimises the absolute time difference as the code computes
  it, \<^verbatim>\<open>Math.abs(ts - target)\<close> in double arithmetic, the first in list order among those
  that do, and that computed difference is finite.  The list is scanned in its own order,
  without sorting.  When the target and the timestamps are whole numbers less than \<open>2^53\<close>
  apart (or infinite), the computed differences are the exact ones, and the value returned
  is that of the first candidate nearest to the target, provided its timestamp is finite.
  Among the offsets \<open>-5000, -10, +10, +9999\<close> the candidate at \<open>-10\<close> is returned, and of a
  tie at \<open>+10\<close> and \<open>-10\<close> the one met first.
\<close>

theorem pickClosest_first_minimal:
  "(pickClosestPrice prices targetMs = Some price \<longleftrightarrow>
      (\<exists>ts. is_finite (time_diff targetMs ts) \<and>
         first_minimal (time_diff targetMs) (price_candidates prices) ts price)) \<and>
   (pickClosestCandleClose candles targetSec = Some close \<longleftrightarrow>
      (\<exists>timeSec. is_finite (time_diff targetSec timeSec) \<and>
         first_minimal (time_diff targetSec) (candle_candidates candles) timeSec close)) \<and>
   (whole_times targetMs (price_candidates prices) \<longrightarrow>
      (pickClosestPrice prices targetMs = Some price \<longleftrightarrow>
         (\<exists>ts. is_finite ts \<and>
            first_minimal (exact_diff targetMs) (price_candidates prices) ts price))) \<and>
   (whole_times targetSec (candle_candidates candles) \<longrightarrow>
      (pickClosestCandleClose candles targetSec = Some close \<longleftrightarrow>
         (\<exists>timeSec. is_finite timeSec \<and>
            first_minimal (exact_diff targetSec) (candle_candidates candles) timeSec close))) \<and>
   pickClosestPrice
     [JArr [JNum (Fin (targetMs - 5000)), JNum a], JArr [JNum (Fin (targetMs - 10)), JNum b],
      JArr [JNum (Fin (targetMs + 10)), JNum c], JArr [JNum (Fin (targetMs + 9999)), JNum d]]
     targetMs = Some b \<and>
   pickClosestPrice
     [JArr [JNum (Fin (targetMs + 10)), JNum c], JArr [JNum (Fin (targetMs - 10)), JNum b]]
     targetMs = Some c \<and>
   pickClosestCandleClose
     [JArr [JNum (Fin (targetSec - 5000)), l, h, o1, JNum a],
      JArr [JNum (Fin (targetSec - 10)), l, h, o1, JNum b],
      JArr [JNum (Fin (targetSec + 10)), l, h, o1, JNum c],
      JArr [JNum (Fin (targetSec + 9999)), l, h, o1, JNum d]]
     targetSec = Some b \<and>
   pickClosestCandleClose
     [JArr [JNum (Fin (targetSec + 10)), l, h, o1, JNum c],
      JArr [JNum (Fin (targetSec - 10)), l, h, o1, JNum b]]
     targetSec = Some c"
proof -
  have 1: "whole_times targetMs (price_candidates prices) \<longrightarrow>
      (pickClosestPrice prices targetMs = Some price \<longleftrightarrow>
         (\<exists>ts. is_finite ts \<and>
            first_minimal (exact_diff targetMs) (price_candidates prices) ts price))"
    by (simp add: pickClosestPrice_Some whole_times_first_minimal)
  have 2: "whole_times targetSec (candle_candidates candles) \<longrightarrow>
      (pickClosestCandleClose candles targetSec = Some close \<longleftrightarrow>
         (\<exists>timeSec. is_finite timeSec \<and>
            first_minimal (exact_diff targetSec) (candle_candidates candles) timeSec close))"
    by (simp add: pickClosestCandleClose_Some whole_times_first_minimal)
  from 1 2 show ?thesis
    using pickClosestPrice_Some pickClosestCandleClose_Some pickClosestPrice_offsets
      pickClosestPrice_tie pickClosestCandleClose_offsets pickClosestCandleClose_tie
    by (intro conjI)
qed

text \<open>An instance: four entries, one of them malformed and one with an infinite
  timestamp; the price at time 90 is the closest to the target 100.\<close>

theorem pickClosest_first_minimal_witness:
  "whole_times 100 (price_candidates [JArr [JNum (Fin 90), JNum (Fin 7)], JNull,
      JArr [JNum (Fin 110), JNum (Fin 8)], JArr [JNum PosInf, JNum (Fin 9)]]) \<and>
   is_finite (Fin 90) \<and>
   first_minimal (exact_diff 100) (price_candidates [JArr [JNum (Fin 90), JNum (Fin 7)], JNull,
      JArr [JNum (Fin 110), JNum (Fin 8)], JArr [JNum PosInf, JNum (Fin 9)]]) (Fin 90) (Fin 7) \<and>
   pickClosestPrice [JArr [JNum (Fin 90), JNum (Fin 7)], JNull,
      JArr [JNum (Fin 110), JNum (Fin 8)], JArr [JNum PosInf, JNum (Fin 9)]] 100 = Some (Fin 7)"
proof -
  let ?prices = "[JArr [JNum (Fin 90), JNum (Fin 7)], JNull,
      JArr [JNum (Fin 110), JNum (Fin 8)], JArr [JNum PosInf, JNum (Fin 9)]]"
  have w: "whole_times 100 (price_candidates ?prices)"
    by code_simp
  have m: "is_finite (Fin 90) \<and>
      first_minimal (exact_diff 100) (price_candidates ?prices) (Fin 90) (Fin 7)"
    by code_simp
  with w pickClosest_first_minimal [of ?prices 100 "Fin 7"]
  have "pickClosestPrice ?prices 100 = Some (Fin 7)"
    by blast
  with w m show ?thesis by blast
qed

text \<open>Claim C3 as it was stated fails in two ways.  At the target 1636928000000 the
  timestamps \<open>0.5\<close> and \<open>0.5 + 2^-20\<close> give the same rounded difference, so the first price
  is returned although the second timestamp is nearer.  And the only candidate of the
  list \<^verbatim>\<open>[[Infinity, 5]]\<close> minimises the difference, and its value is not returned.\<close>

theorem pickClosestPrice_nearest_counterexample:
  "first_minimal (exact_diff 1636928000000)
     (price_candidates [JArr [JNum (Fin (1 / 2)), JNum (Fin 100)],
                        JArr [JNum (Fin (1 / 2 + 1 / 2 ^ 20)), JNum (Fin 200)]])
     (Fin (1 / 2 + 1 / 2 ^ 20)) (Fin 200) \<and>
   pickClosestPrice [JArr [JNum (Fin (1 / 2)), JNum (Fin 100)],
                     JArr [JNum (Fin (1 / 2 + 1 / 2 ^ 20)), JNum (Fin 200)]]
     1636928000000 = Some (Fin 100) \<and>
   first_minimal (exact_diff 0) (price_candidates [JArr [JNum PosInf, JNum (Fin 5)]])
     PosInf (Fin 5) \<and>
   pickClosestPrice [JArr [JNum PosInf, JNum (Fin 5)]] 0 = None"
  by code_simp

text \<open>
  Claim C10, as amended.  Both functions are defined on every list (they are total
  functions, by structural recursion on the list).  Entries that are not arrays, are too
  short, or whose timestamp or value is not a number are skipped: removing them from the
  list does not change the result.  The result is \<^verbatim>\<open>null\<close> exactly when the list has no
  well-formed entry whose computed difference \<^verbatim>\<open>Math.abs(ts - target)\<close> is finite; an
  infinite timestamp gives an infinite difference.  When the target and the timestamps
  are whole numbers less than \<open>2^53\<close> apart (or infinite), that is: exactly when the list
  has no well-formed entry with a finite timestamp.
\<close>

theorem pickClosest_skips_malformed:
  "pickClosestPrice prices targetMs = pickClosestPrice (filter (well_formed 2 1) prices) targetMs \<and>
   pickClosestCandleClose candles targetSec =
     pickClosestCandleClose (filter (well_formed 5 4) candles) targetSec \<and>
   (pickClosestPrice prices targetMs = None \<longleftrightarrow>
      \<not> (\<exists>e \<in> set prices. \<exists>ts price.
           price_fields e = Some (ts, price) \<and> is_finite (time_diff targetMs ts))) \<and>
   (pickClosestCandleClose candles targetSec = None \<longleftrightarrow>
      \<not> (\<exists>c \<in> set candles. \<exists>timeSec close.
           candle_fields c = Some (timeSec, close) \<and> is_finite (time_diff targetSec timeSec))) \<and>
   (price_fields e = None \<longleftrightarrow> \<not> well_formed 2 1 e) \<and>
   (candle_fields e = None \<longleftrightarrow> \<not> well_formed 5 4 e) \<and>
   (is_finite (time_diff target ts) \<longrightarrow> is_finite ts) \<and>
   (whole_times targetMs (price_candidates prices) \<longrightarrow>
      (pickClosestPrice prices targetMs = None \<longleftrightarrow>
         \<not> (\<exists>e \<in> set prices. \<exists>ts price. price_fields e = Some (ts, price) \<and> is_finite ts))) \<and>
   (whole_times targetSec (candle_candidates candles) \<longrightarrow>
      (pickClosestCandleClose candles targetSec = None \<longleftrightarrow>
         \<not> (\<exists>c \<in> set candles. \<exists>timeSec close.
              candle_fields c = Some (timeSec, close) \<and> is_finite timeSec)))"
proof -
  have 1: "pickClosestPrice prices targetMs = pickClosestPrice (filter (well_formed 2 1) prices) targetMs"
    by (simp only: pickClosestPrice_def price_loop_scan price_candidates_filter)
  have 2: "pickClosestCandleClose candles targetSec =
     pickClosestCandleClose (filter (well_formed 5 4) candles) targetSec"
    by (simp only: pickClosestCandleClose_def candle_loop_scan candle_candidates_filter)
  have 3: "pickClosestPrice prices targetMs = None \<longleftrightarrow>
      \<not> (\<exists>e \<in> set prices. \<exists>ts price.
           price_fields e = Some (ts, price) \<and> is_finite (time_diff targetMs ts))"
    unfolding pickClosestPrice_None price_candidates_def
    by (force simp: List.map_filter_def)
  have 4: "pickClosestCandleClose candles targetSec = None \<longleftrightarrow>
      \<not> (\<exists>c \<in> set candles. \<exists>timeSec close.
           candle_fields c = Some (timeSec, close) \<and> is_finite (time_diff targetSec timeSec))"
    unfolding pickClosestCandleClose_None candle_candidates_def
    by (force simp: List.map_filter_def)
  have 5: "is_finite (time_diff target ts) \<longrightarrow> is_finite ts"
    by (cases ts) (simp_all add: time_diff_def)
  have 6: "pickClosestPrice prices targetMs = None \<longleftrightarrow>
         \<not> (\<exists>e \<in> set prices. \<exists>ts price. price_fields e = Some (ts, price) \<and> is_finite ts)"
    if "whole_times targetMs (price_candidates prices)"
  proof -
    have "pickClosestPrice prices targetMs = None \<longleftrightarrow>
        (\<forall>c \<in> set (price_candidates prices). \<not> is_finite (fst c))"
      unfolding pickClosestPrice_None by (rule whole_times_finite [OF that])
    then show ?thesis
      unfolding price_candidates_def by (force simp: List.map_filter_def)
  qed
  have 7: "pickClosestCandleClose candles targetSec = None \<longleftrightarrow>
         \<not> (\<exists>c \<in> set candles. \<exists>timeSec close.
              candle_fields c = Some (timeSec, close) \<and> is_finite timeSec)"
    if "whole_times targetSec (candle_candidates candles)"
  proof -
    have "pickClosestCandleClose candles targetSec = None \<longleftrightarrow>
        (\<forall>c \<in> set (candle_candidates candles). \<not> is_finite (fst c))"
      unfolding pickClosestCandleClose_None by (rule whole_times_finite [OF that])
    then show ?thesis
      unfolding candle_candidates_def by (force simp: List.map_filter_def)
  qed
  from 6 have 8: "whole_times targetMs (price_candidates prices) \<longrightarrow>
      (pickClosestPrice prices targetMs = None \<longleftrightarrow>
         \<not> (\<exists>e \<in> set prices. \<exists>ts price. price_fields e = Some (ts, price) \<and> is_finite ts))"
    by (rule impI)
  from 7 have 9: "whole_times targetSec (candle_candidates candles) \<longrightarrow>
      (pickClosestCandleClose candles targetSec = None \<longleftrightarrow>
         \<not> (\<exists>c \<in> set candles. \<exists>timeSec close.
              candle_fields c = Some (timeSec, close) \<and> is_finite timeSec))"
    by (rule impI)
  from 1 2 3 4 5 8 9 price_fields_well_formed candle_fields_well_formed show ?thesis
    by (intro conjI)
qed

text \<open>Claim C10 as it was stated fails on a well-formed candle whose time is
  \<^verbatim>\<open>-Infinity\<close>: the list has a well-formed candidate and the result is \<^verbatim>\<open>null\<close>.\<close>

theorem pickClosestCandleClose_null_counterexample:
  "well_formed 5 4 (JArr [JNum NegInf, JNum (Fin 1), JNum (Fin 2), JNum (Fin 3), JNum (Fin 4)]) \<and>
   pickClosestCandleClose
     [JArr [JNum NegInf, JNum (Fin 1), JNum (Fin 2), JNum (Fin 3), JNum (Fin 4)]] 0 = None"
  by (simp add: well_formed_def is_number_def pickClosestCandleClose_def)

text \<open>An instance of the amended claim C10: the malformed entries of a list of price
  points are dropped without changing the result, which is not \<^verbatim>\<open>null\<close>.\<close>

theorem pickClosest_skips_malformed_witness:
  "whole_times 100 (price_candidates [JNull, JArr [JNum (Fin 3)],
       JArr [JNum (Fin 90), JNum (Fin 7)], JArr [JStr ''90'', JNum (Fin 1)]]) \<and>
   pickClosestPrice [JNull, JArr [JNum (Fin 3)], JArr [JNum (Fin 90), JNum (Fin 7)],
       JArr [JStr ''90'', JNum (Fin 1)]] 100 =
     pickClosestPrice [JArr [JNum (Fin 90), JNum (Fin 7)]] 100 \<and>
   pickClosestPrice [JNull, JArr [JNum (Fin 3)], JArr [JNum (Fin 90), JNum (Fin 7)],
       JArr [JStr ''90'', JNum (Fin 1)]] 100 \<noteq> None \<and>
   (\<exists>e \<in> set [JNull, JArr [JNum (Fin 3)], JArr [JNum (Fin 90), JNum (Fin 7)],
       JArr [JStr ''90'', JNum (Fin 1)]].
      \<exists>ts price. price_fields e = Some (ts, price) \<and> is_finite ts)"
proof -
  let ?prices = "[JNull, JArr [JNum (Fin 3)], JArr [JNum (Fin 90), JNum (Fin 7)],
       JArr [JStr ''90'', JNum (Fin 1)]]"
  have w: "whole_times 100 (price_candidates ?prices)"
    by code_simp
  have f: "filter (well_formed 2 1) ?prices = [JArr [JNum (Fin 90), JNum (Fin 7)]]"
    by (simp add: well_formed_def is_number_def)
  have e: "\<exists>e \<in> set ?prices. \<exists>ts price. price_fields e = Some (ts, price) \<and> is_finite ts"
    by simp
  from pickClosest_skips_malformed [of ?prices 100 "[]" 0 JNull 0 PosInf] w
  have a: "pickClosestPrice ?prices 100 = pickClosestPrice (filter (well_formed 2 1) ?prices) 100"
    and b: "pickClosestPrice ?prices 100 = None \<longleftrightarrow>
      \<not> (\<exists>e \<in> set ?prices. \<exists>ts price. price_fields e = Some (ts, price) \<and> is_finite ts)"
    by blast+
  from a have "pickClosestPrice ?prices 100 = pickClosestPrice [JArr [JNum (Fin 90), JNum (Fin 7)]] 100"
    by (simp only: f)
  moreover from b e have "pickClosestPrice ?prices 100 \<noteq> None"
    by blast
  ultimately show ?thesis using e w by blast
qed

section \<open>Properties of the pipeline\<close>

lemma positive_number_Some: "positive_number p = Some n \<longleftrightarrow> p = Some n \<and> Fin 0 < n"
  by (auto simp: positive_number_def split: option.splits)

lemma positive_number_Some_None [simp]: "positive_number (Some n) = None \<longleftrightarrow> \<not> Fin 0 < n"
  by (auto simp: positive_number_def)

lemma pickClosestCandleClose_Nil [simp]: "pickClosestCandleClose [] t = None"
  by (simp add: pickClosestCandleClose_def)

lemma fetch_current_Inr:
  "fetch_current cfg w = Inr currentPrice \<longleftrightarrow>
     (\<exists>currentRes currentJson.
        fetch w (current_request cfg) = Inr currentRes \<and> ok currentRes \<and>
        json currentRes = Inr currentJson \<and>
        opt_prop (opt_prop (Some currentJson) ''bitcoin'') ''usd'' = Some (JNum currentPrice) \<and>
        Fin 0 < currentPrice)"
  by (auto simp: fetch_current_def json_number_def positive_number_Some
      split: sum.splits option.splits json.splits)

lemma fetch_candles_Inr:
  "fetch_candles w t = Inr h \<longleftrightarrow>
     (\<exists>cbRes candles.
        fetch w (coinbase_request t) = Inr cbRes \<and> ok cbRes \<and>
        json cbRes = Inr (JArr candles) \<and>
        pickClosestCandleClose candles (real_of_int (t div 1000)) = Some h \<and> Fin 0 < h)"
  by (auto simp: fetch_candles_def positive_number_Some
      split: sum.splits option.splits json.splits)

lemma snd_fetch_historical:
  "snd (fetch_historical cfg w t) =
     (if truthy (COINGECKO_API_KEY cfg) then [historical_request cfg (t div 1000)] else [])"
  by (simp add: fetch_historical_def Let_def)

lemma fetchFromCoinGecko_Inr:
  "fst (fetchFromCoinGecko cfg w) = Inr p \<longleftrightarrow>
     (\<exists>currentPrice historicalPrice.
        fetch_current cfg w = Inr currentPrice \<and>
        ((\<exists>h. fst (fetch_historical cfg w (two_years_before w)) = Inr h \<and>
              positive_number h = Some historicalPrice) \<or>
         (\<exists>h. fst (fetch_historical cfg w (two_years_before w)) = Inr h \<and>
              positive_number h = None \<and>
              fetch_candles w (two_years_before w) = Inr historicalPrice)) \<and>
        p = make_payload currentPrice historicalPrice (two_years_before w))"
  by (auto simp: fetchFromCoinGecko_def Let_def split: sum.splits option.splits prod.splits)

lemma fst_fetch_historical_401:
  "truthy (COINGECKO_API_KEY cfg) \<Longrightarrow>
   fetch w (historical_request cfg (t div 1000)) = Inr histRes \<Longrightarrow> status histRes = 401 \<Longrightarrow>
   fst (fetch_historical cfg w t) = Inr None"
  by (simp add: fetch_historical_def Let_def ok_def)

lemma fst_fetch_historical_fatal:
  "truthy (COINGECKO_API_KEY cfg) \<Longrightarrow>
   fetch w (historical_request cfg (t div 1000)) = Inr histRes \<Longrightarrow>
   \<not> ok histRes \<Longrightarrow> status histRes \<noteq> 401 \<Longrightarrow>
   fst (fetch_historical cfg w t) =
     Inl (Error ''Error'' (''CoinGecko historical price error: '' @ status_line histRes))"
  by (simp add: fetch_historical_def Let_def)

lemma fetchFromCoinGecko_fallback:
  "fetch_current cfg w = Inr currentPrice \<Longrightarrow>
   fst (fetch_historical cfg w (two_years_before w)) = Inr historicalPrice \<Longrightarrow>
   positive_number historicalPrice = None \<Longrightarrow>
   fetchFromCoinGecko cfg w =
     (case fetch_candles w (two_years_before w) of
        Inl e \<Rightarrow> Inl e
      | Inr h \<Rightarrow> Inr (make_payload currentPrice h (two_years_before w)),
      current_request cfg # snd (fetch_historical cfg w (two_years_before w)) @
        [coinbase_request (two_years_before w)])"
  by (cases "fetch_historical cfg w (two_years_before w)")
     (simp add: fetchFromCoinGecko_def Let_def split: sum.splits)

lemma fetchFromCoinGecko_historical_error:
  "fetch_current cfg w = Inr currentPrice \<Longrightarrow>
   fst (fetch_historical cfg w (two_years_before w)) = Inl e \<Longrightarrow>
   fetchFromCoinGecko cfg w =
     (Inl e, current_request cfg # snd (fetch_historical cfg w (two_years_before w)))"
  by (cases "fetch_historical cfg w (two_years_before w)")
     (simp add: fetchFromCoinGecko_def Let_def)

lemma coinbase_request_not_coingecko:
  "coinbase_request t \<noteq> current_request cfg" "coinbase_request t \<noteq> historical_request cfg s"
  by (simp_all add: coinbase_request_def current_request_def historical_request_def Let_def)

text \<open>
  Claim C4.  With an API key configured and the current price fetched, let the historical
  (CoinGecko range) request be answered.  If the answer has status 401, the pipeline does not
  fail there: it goes on to the candle fallback, its outcome is that of the fallback, and
  the requests sent are the three requests in order.  If the answer has any other
  non-success status, the pipeline fails with the error
  \<^verbatim>\<open>CoinGecko historical price error: <status> <statusText>\<close>, and the candle request is
  never sent.
\<close>

theorem secondary_401_falls_back_other_status_fatal:
  assumes "truthy (COINGECKO_API_KEY cfg)"
    and "fetch_current cfg w = Inr currentPrice"
    and "fetch w (historical_request cfg (two_years_before w div 1000)) = Inr histRes"
  shows "(status histRes = 401 \<longrightarrow>
            fetchFromCoinGecko cfg w =
              (case fetch_candles w (two_years_before w) of
                 Inl e \<Rightarrow> Inl e
               | Inr h \<Rightarrow> Inr (make_payload currentPrice h (two_years_before w)),
               [current_request cfg, historical_request cfg (two_years_before w div 1000),
                coinbase_request (two_years_before w)])) \<and>
         (\<not> ok histRes \<and> status histRes \<noteq> 401 \<longrightarrow>
            fetchFromCoinGecko cfg w =
              (Inl (Error ''Error''
                      (''CoinGecko historical price error: '' @ status_line histRes)),
               [current_request cfg, historical_request cfg (two_years_before w div 1000)]) \<and>
            coinbase_request (two_years_before w) \<notin> set (snd (fetchFromCoinGecko cfg w)))"
proof (intro conjI impI)
  assume "status histRes = 401"
  with assms have "fst (fetch_historical cfg w (two_years_before w)) = Inr None"
    by (intro fst_fetch_historical_401)
  with assms show "fetchFromCoinGecko cfg w =
      (case fetch_candles w (two_years_before w) of
         Inl e \<Rightarrow> Inl e
       | Inr h \<Rightarrow> Inr (make_payload currentPrice h (two_years_before w)),
       [current_request cfg, historical_request cfg (two_years_before w div 1000),
        coinbase_request (two_years_before w)])"
    by (simp add: fetchFromCoinGecko_fallback snd_fetch_historical positive_number_def)
next
  assume a: "\<not> ok histRes \<and> status histRes \<noteq> 401"
  with assms have "fst (fetch_historical cfg w (two_years_before w)) =
      Inl (Error ''Error'' (''CoinGecko historical price error: '' @ status_line histRes))"
    by (intro fst_fetch_historical_fatal) simp_all
  with assms show r: "fetchFromCoinGecko cfg w =
      (Inl (Error ''Error'' (''CoinGecko historical price error: '' @ status_line histRes)),
       [current_request cfg, historical_request cfg (two_years_before w div 1000)])"
    by (simp add: fetchFromCoinGecko_historical_error snd_fetch_historical)
  show "coinbase_request (two_years_before w) \<notin> set (snd (fetchFromCoinGecko cfg w))"
    by (simp add: r coinbase_request_not_coingecko)
qed

lemma nearest_integer_Math_round: "nearest_integer x (Math_round x)"
proof (cases x)
  case (Fin r)
  have "\<bar>of_int \<lfloor>r + 1 / 2\<rfloor> - r\<bar> \<le> 1 / 2" by linarith
  with Fin show ?thesis by (simp add: nearest_integer_def)
qed (simp_all add: nearest_integer_def)


text \<open>
  Claim C6.  In every successful run, \<open>currentPriceUsd\<close> is \<^verbatim>\<open>Math.round\<close> of the price in
  the primary response, \<open>historicalPriceUsd\<close> is \<^verbatim>\<open>Math.round\<close> of the historical price (from
  the range request or from the candles), both results are nearest integers of the fetched
  numbers, a primary price of 65000.7 gives 65001, and \<open>historicalTargetDate\<close> is
  \<^verbatim>\<open>toISOString()\<close> of the target instant.
\<close>

theorem payload_prices_rounded:
  assumes "fst (fetchFromCoinGecko cfg w) = Inr p"
  shows "\<exists>currentRes currentJson currentPrice historicalPrice.
           fetch w (current_request cfg) = Inr currentRes \<and>
           json currentRes = Inr currentJson \<and>
           primary_price currentJson = Some currentPrice \<and>
           (fst (fetch_historical cfg w (two_years_before w)) = Inr (Some historicalPrice) \<or>
            fetch_candles w (two_years_before w) = Inr historicalPrice) \<and>
           currentPriceUsd p = Math_round currentPrice \<and>
           historicalPriceUsd p = Math_round historicalPrice \<and>
           historicalTargetDate p = toISOString (two_years_before w) \<and>
           nearest_integer currentPrice (currentPriceUsd p) \<and>
           nearest_integer historicalPrice (historicalPriceUsd p) \<and>
           (currentPrice = Fin 65000.7 \<longrightarrow> currentPriceUsd p = Fin 65001)"
proof -
  let ?t = "two_years_before w"
  from assms obtain currentPrice historicalPrice
    where cur: "fetch_current cfg w = Inr currentPrice"
      and hist: "(\<exists>h. fst (fetch_historical cfg w ?t) = Inr h \<and>
                      positive_number h = Some historicalPrice) \<or>
                 (\<exists>h. fst (fetch_historical cfg w ?t) = Inr h \<and> positive_number h = None \<and>
                      fetch_candles w ?t = Inr historicalPrice)"
      and p: "p = make_payload currentPrice historicalPrice ?t"
    unfolding fetchFromCoinGecko_Inr by blast
  from cur obtain currentRes currentJson
    where "fetch w (current_request cfg) = Inr currentRes"
      and "json currentRes = Inr currentJson"
      and "primary_price currentJson = Some currentPrice"
    unfolding fetch_current_Inr by (auto simp: primary_price_def json_number_def)
  moreover from hist have "fst (fetch_historical cfg w ?t) = Inr (Some historicalPrice) \<or>
      fetch_candles w ?t = Inr historicalPrice"
    by (auto simp: positive_number_Some)
  moreover have "currentPriceUsd p = Math_round currentPrice"
    and "historicalPriceUsd p = Math_round historicalPrice"
    and "historicalTargetDate p = toISOString ?t"
    by (simp_all add: p make_payload_def)
  moreover have "nearest_integer currentPrice (currentPriceUsd p)"
    and "nearest_integer historicalPrice (historicalPriceUsd p)"
    by (simp_all add: p make_payload_def nearest_integer_Math_round)
  moreover have "currentPrice = Fin 65000.7 \<longrightarrow> currentPriceUsd p = Fin 65001"
    by (simp add: p make_payload_def)
  ultimately show ?thesis by blast
qed

lemma rounded_price_Math_round: "Fin 0 < x \<Longrightarrow> rounded_price x (Math_round x)"
proof (cases x)
  case (Fin r)
  assume "Fin 0 < x"
  with Fin have r: "0 < r" by simp
  then have "0 \<le> \<lfloor>r + 1 / 2\<rfloor>" by simp
  moreover from r have "\<lfloor>r + 1 / 2\<rfloor> = 0 \<longleftrightarrow> r < 1 / 2" by linarith
  moreover have "1 \<le> \<lfloor>r + 1 / 2\<rfloor> \<longleftrightarrow> 1 / 2 \<le> r" by linarith
  then have "(1::real) \<le> of_int \<lfloor>r + 1 / 2\<rfloor> \<longleftrightarrow> 1 / 2 \<le> r"
    by (metis of_int_1 of_int_le_iff)
  ultimately show ?thesis
    using Fin by (simp add: rounded_price_def integer_at_least_def)
qed (simp_all add: rounded_price_def less_number_def)

text \<open>
  Claim C9, as amended.  In every payload of a successful run, \<open>currentPriceUsd\<close> is
  \<^verbatim>\<open>Math.round\<close> of the positive number fetched from the primary response and
  \<open>historicalPriceUsd\<close> is \<^verbatim>\<open>Math.round\<close> of the positive number obtained from the range
  request or from the candles.  Each is therefore a non-negative integer, 0 exactly when
  the fetched number is below 0.5 and at least 1 exactly when it is at least 0.5, or
  \<^verbatim>\<open>Infinity\<close> when the fetched number is infinite.  The pipeline fails whenever the body of
  the primary response is not JSON, or its price is missing, not a number or not positive.
\<close>

theorem payload_prices_nonnegative:
  "(fst (fetchFromCoinGecko cfg w) = Inr p \<longrightarrow>
      (\<exists>currentRes currentJson currentPrice historicalPrice.
         fetch w (current_request cfg) = Inr currentRes \<and>
         json currentRes = Inr currentJson \<and>
         primary_price currentJson = Some currentPrice \<and>
         (fst (fetch_historical cfg w (two_years_before w)) = Inr (Some historicalPrice) \<or>
          fetch_candles w (two_years_before w) = Inr historicalPrice) \<and>
         Fin 0 < currentPrice \<and> Fin 0 < historicalPrice \<and>
         currentPriceUsd p = Math_round currentPrice \<and>
         historicalPriceUsd p = Math_round historicalPrice \<and>
         rounded_price currentPrice (currentPriceUsd p) \<and>
         rounded_price historicalPrice (historicalPriceUsd p))) \<and>
   (\<forall>currentRes.
      fetch w (current_request cfg) = Inr currentRes \<and> ok currentRes \<longrightarrow>
      (\<forall>e. json currentRes = Inl e \<longrightarrow>
           fetchFromCoinGecko cfg w = (Inl e, [current_request cfg])) \<and>
      (\<forall>body. json currentRes = Inr body \<and> positive_number (primary_price body) = None \<longrightarrow>
           fetchFromCoinGecko cfg w =
             (Inl (Error ''Error'' ''Invalid current price payload from CoinGecko''),
              [current_request cfg])))"
proof (intro conjI impI allI)
  let ?t = "two_years_before w"
  assume "fst (fetchFromCoinGecko cfg w) = Inr p"
  then obtain currentPrice historicalPrice
    where cur: "fetch_current cfg w = Inr currentPrice"
      and hist: "(\<exists>h. fst (fetch_historical cfg w ?t) = Inr h \<and>
                      positive_number h = Some historicalPrice) \<or>
                 (\<exists>h. fst (fetch_historical cfg w ?t) = Inr h \<and> positive_number h = None \<and>
                      fetch_candles w ?t = Inr historicalPrice)"
      and p: "p = make_payload currentPrice historicalPrice ?t"
    unfolding fetchFromCoinGecko_Inr by blast
  from cur obtain currentRes currentJson
    where "fetch w (current_request cfg) = Inr currentRes"
      and "json currentRes = Inr currentJson"
      and "primary_price currentJson = Some currentPrice"
      and cpos: "Fin 0 < currentPrice"
    unfolding fetch_current_Inr by (auto simp: primary_price_def json_number_def)
  moreover from hist have "fst (fetch_historical cfg w ?t) = Inr (Some historicalPrice) \<or>
      fetch_candles w ?t = Inr historicalPrice"
    by (auto simp: positive_number_Some)
  moreover from hist have hpos: "Fin 0 < historicalPrice"
    by (auto simp: positive_number_Some fetch_candles_Inr)
  moreover have "currentPriceUsd p = Math_round currentPrice"
    and "historicalPriceUsd p = Math_round historicalPrice"
    by (simp_all add: p make_payload_def)
  moreover have "rounded_price currentPrice (currentPriceUsd p)"
    and "rounded_price historicalPrice (historicalPriceUsd p)"
    using cpos hpos by (simp_all add: p make_payload_def rounded_price_Math_round)
  ultimately show "\<exists>currentRes currentJson currentPrice historicalPrice.
         fetch w (current_request cfg) = Inr currentRes \<and>
         json currentRes = Inr currentJson \<and>
         primary_price currentJson = Some currentPrice \<and>
         (fst (fetch_historical cfg w (two_years_before w)) = Inr (Some historicalPrice) \<or>
          fetch_candles w (two_years_before w) = Inr historicalPrice) \<and>
         Fin 0 < currentPrice \<and> Fin 0 < historicalPrice \<and>
         currentPriceUsd p = Math_round currentPrice \<and>
         historicalPriceUsd p = Math_round historicalPrice \<and>
         rounded_price currentPrice (currentPriceUsd p) \<and>
         rounded_price historicalPrice (historicalPriceUsd p)"
    by blast
next
  fix currentRes e
  assume "fetch w (current_request cfg) = Inr currentRes \<and> ok currentRes"
    and "json currentRes = Inl e"
  then have "fetch_current cfg w = Inl e" by (simp add: fetch_current_def)
  then show "fetchFromCoinGecko cfg w = (Inl e, [current_request cfg])"
    by (simp add: fetchFromCoinGecko_def)
next
  fix currentRes body
  assume "fetch w (current_request cfg) = Inr currentRes \<and> ok currentRes"
    and "json currentRes = Inr body \<and> positive_number (primary_price body) = None"
  then have "fetch_current cfg w =
      Inl (Error ''Error'' ''Invalid current price payload from CoinGecko'')"
    by (simp add: fetch_current_def primary_price_def)
  then show "fetchFromCoinGecko cfg w =
      (Inl (Error ''Error'' ''Invalid current price payload from CoinGecko''),
       [current_request cfg])"
    by (simp add: fetchFromCoinGecko_def)
qed

text \<open>
  Two runs with a key: the historical request answered 401 (the payload comes from the
  candles) and answered 500 (the run fails after two requests).
\<close>

theorem secondary_401_falls_back_other_status_fatal_witness:
  "truthy (COINGECKO_API_KEY config_with_key) \<and>
   fetchFromCoinGecko config_with_key
     (sample_world (primary_body (Fin 65000.7)) unauthorized (candles_ok sample_candles)) =
     (Inr \<lparr> currentPriceUsd = Fin 65001, historicalPriceUsd = Fin 63600,
            historicalTargetDate = ''2021-11-14T22:13:20.000Z'' \<rparr>,
      [Request (SimplePrice ''https://api.coingecko.com/api/v3'')
         [(''x-cg-demo-api-key'', ''demo-key'')],
       Request (MarketChartRange ''https://api.coingecko.com/api/v3'' 1636928000 1638137600)
         [(''x-cg-demo-api-key'', ''demo-key'')],
       Request (CoinbaseCandles 86400 1636928000000 1638137600000)
         [(''User-Agent'', ''mining-calculator-vercel'')]]) \<and>
   fetchFromCoinGecko config_with_key
     (sample_world (primary_body (Fin 65000.7)) server_error (candles_ok sample_candles)) =
     (Inl (Error ''Error'' ''CoinGecko historical price error: 500 Internal Server Error''),
      [Request (SimplePrice ''https://api.coingecko.com/api/v3'')
         [(''x-cg-demo-api-key'', ''demo-key'')],
       Request (MarketChartRange ''https://api.coingecko.com/api/v3'' 1636928000 1638137600)
         [(''x-cg-demo-api-key'', ''demo-key'')]])"
proof -
  let ?w1 = "sample_world (primary_body (Fin 65000.7)) unauthorized (candles_ok sample_candles)"
  let ?w2 = "sample_world (primary_body (Fin 65000.7)) server_error (candles_ok sample_candles)"
  have k: "truthy (COINGECKO_API_KEY config_with_key)"
    by code_simp
  have c1: "fetch_current config_with_key ?w1 = Inr (Fin 65000.7)"
    by code_simp
  have h1: "fetch ?w1 (historical_request config_with_key (two_years_before ?w1 div 1000)) =
      Inr unauthorized"
    by code_simp
  have s1: "status unauthorized = 401"
    by code_simp
  have e1: "(case fetch_candles ?w1 (two_years_before ?w1) of
               Inl e \<Rightarrow> Inl e
             | Inr h \<Rightarrow> Inr (make_payload (Fin 65000.7) h (two_years_before ?w1)),
             [current_request config_with_key,
              historical_request config_with_key (two_years_before ?w1 div 1000),
              coinbase_request (two_years_before ?w1)]) =
     (Inr \<lparr> currentPriceUsd = Fin 65001, historicalPriceUsd = Fin 63600,
            historicalTargetDate = ''2021-11-14T22:13:20.000Z'' \<rparr>,
      [Request (SimplePrice ''https://api.coingecko.com/api/v3'')
         [(''x-cg-demo-api-key'', ''demo-key'')],
       Request (MarketChartRange ''https://api.coingecko.com/api/v3'' 1636928000 1638137600)
         [(''x-cg-demo-api-key'', ''demo-key'')],
       Request (CoinbaseCandles 86400 1636928000000 1638137600000)
         [(''User-Agent'', ''mining-calculator-vercel'')]])"
    by code_simp
  have c2: "fetch_current config_with_key ?w2 = Inr (Fin 65000.7)"
    by code_simp
  have h2: "fetch ?w2 (historical_request config_with_key (two_years_before ?w2 div 1000)) =
      Inr server_error"
    by code_simp
  have s2: "\<not> ok server_error \<and> status server_error \<noteq> 401"
    by code_simp
  have e2: "(Inl (Error ''Error'' (''CoinGecko historical price error: '' @ status_line server_error)),
             [current_request config_with_key,
              historical_request config_with_key (two_years_before ?w2 div 1000)]) =
     (Inl (Error ''Error'' ''CoinGecko historical price error: 500 Internal Server Error'')
        :: error + payload,
      [Request (SimplePrice ''https://api.coingecko.com/api/v3'')
         [(''x-cg-demo-api-key'', ''demo-key'')],
       Request (MarketChartRange ''https://api.coingecko.com/api/v3'' 1636928000 1638137600)
         [(''x-cg-demo-api-key'', ''demo-key'')]])"
    by code_simp
  from secondary_401_falls_back_other_status_fatal [OF k c1 h1] s1
  have "fetchFromCoinGecko config_with_key ?w1 =
      (case fetch_candles ?w1 (two_years_before ?w1) of
         Inl e \<Rightarrow> Inl e
       | Inr h \<Rightarrow> Inr (make_payload (Fin 65000.7) h (two_years_before ?w1)),
       [current_request config_with_key,
        historical_request config_with_key (two_years_before ?w1 div 1000),
        coinbase_request (two_years_before ?w1)])"
    by blast
  moreover from secondary_401_falls_back_other_status_fatal [OF k c2 h2] s2
  have "fetchFromCoinGecko config_with_key ?w2 =
      (Inl (Error ''Error'' (''CoinGecko historical price error: '' @ status_line server_error)),
       [current_request config_with_key,
        historical_request config_with_key (two_years_before ?w2 div 1000)])"
    by blast
  ultimately show ?thesis
    using k by (simp only: e1 e2)
qed




text \<open>
  A successful run whose primary price is 65000.7.
\<close>

theorem payload_prices_rounded_witness:
  "fst (fetchFromCoinGecko config_with_key
     (sample_world (primary_body (Fin 65000.7)) unauthorized (candles_ok sample_candles))) =
     Inr \<lparr> currentPriceUsd = Fin 65001, historicalPriceUsd = Fin 63600,
           historicalTargetDate = ''2021-11-14T22:13:20.000Z'' \<rparr> \<and>
   (\<exists>currentJson currentPrice historicalPrice.
      primary_price currentJson = Some currentPrice \<and>
      Fin 65001 = Math_round currentPrice \<and> Fin 63600 = Math_round historicalPrice \<and>
      ''2021-11-14T22:13:20.000Z'' = toISOString (two_years_before
         (sample_world (primary_body (Fin 65000.7)) unauthorized (candles_ok sample_candles))))"
proof -
  let ?w = "sample_world (primary_body (Fin 65000.7)) unauthorized (candles_ok sample_candles)"
  have h: "fst (fetchFromCoinGecko config_with_key ?w) =
     Inr \<lparr> currentPriceUsd = Fin 65001, historicalPriceUsd = Fin 63600,
           historicalTargetDate = ''2021-11-14T22:13:20.000Z'' \<rparr>"
    by code_simp
  from payload_prices_rounded [OF h] obtain currentJson currentPrice historicalPrice
    where "primary_price currentJson = Some currentPrice"
      and "Fin 65001 = Math_round currentPrice"
      and "Fin 63600 = Math_round historicalPrice"
      and "''2021-11-14T22:13:20.000Z'' = toISOString (two_years_before ?w)"
    by auto
  with h show ?thesis by blast
qed

text \<open>
  A successful run with prices below one half, and a run whose primary price is 0.
\<close>

theorem payload_prices_nonnegative_witness:
  "fst (fetchFromCoinGecko config_without_key
     (sample_world (primary_body (Fin 0.4)) unauthorized (candles_ok penny_candles))) =
     Inr \<lparr> currentPriceUsd = Fin 0, historicalPriceUsd = Fin 0,
           historicalTargetDate = ''2021-11-14T22:13:20.000Z'' \<rparr> \<and>
   (\<exists>currentPrice historicalPrice.
      Fin 0 < currentPrice \<and> Fin 0 < historicalPrice \<and>
      Fin 0 = Math_round currentPrice \<and> Fin 0 = Math_round historicalPrice \<and>
      rounded_price currentPrice (Fin 0) \<and> rounded_price historicalPrice (Fin 0)) \<and>
   fetchFromCoinGecko config_without_key
     (sample_world (primary_body (Fin 0)) unauthorized (candles_ok sample_candles)) =
     (Inl (Error ''Error'' ''Invalid current price payload from CoinGecko''),
      [current_request config_without_key])"
proof -
  let ?w = "sample_world (primary_body (Fin 0.4)) unauthorized (candles_ok penny_candles)"
  let ?v = "sample_world (primary_body (Fin 0)) unauthorized (candles_ok sample_candles)"
  let ?p = "\<lparr> currentPriceUsd = Fin 0, historicalPriceUsd = Fin 0,
           historicalTargetDate = ''2021-11-14T22:13:20.000Z'' \<rparr>"
  have h: "fst (fetchFromCoinGecko config_without_key ?w) = Inr ?p"
    by code_simp
  from payload_prices_nonnegative [of config_without_key ?w ?p] h
  obtain currentPrice historicalPrice
    where "Fin 0 < currentPrice" and "Fin 0 < historicalPrice"
      and "currentPriceUsd ?p = Math_round currentPrice"
      and "historicalPriceUsd ?p = Math_round historicalPrice"
      and "rounded_price currentPrice (currentPriceUsd ?p)"
      and "rounded_price historicalPrice (historicalPriceUsd ?p)"
    by blast
  then have 1: "\<exists>currentPrice historicalPrice.
      Fin 0 < currentPrice \<and> Fin 0 < historicalPrice \<and>
      Fin 0 = Math_round currentPrice \<and> Fin 0 = Math_round historicalPrice \<and>
      rounded_price currentPrice (Fin 0) \<and> rounded_price historicalPrice (Fin 0)"
    by auto
  have f: "fetch ?v (current_request config_without_key) =
        Inr (Response 200 ''OK'' (Inr (primary_body (Fin 0)))) \<and>
      ok (Response 200 ''OK'' (Inr (primary_body (Fin 0))))"
    by code_simp
  have b: "json (Response 200 ''OK'' (Inr (primary_body (Fin 0)))) = Inr (primary_body (Fin 0)) \<and>
      positive_number (primary_price (primary_body (Fin 0))) = None"
    by code_simp
  from payload_prices_nonnegative [of config_without_key ?v ?p] f b
  have "fetchFromCoinGecko config_without_key ?v =
     (Inl (Error ''Error'' ''Invalid current price payload from CoinGecko''),
      [current_request config_without_key])"
    by blast
  with h 1 show ?thesis by blast
qed

text \<open>
  Claim C9 as it was stated fails: a primary price of 0.4 and a candle close of 0.3 are
  positive numbers, the run succeeds, and both prices of the payload are 0.
\<close>

theorem payload_price_zero_counterexample:
  "fst (fetchFromCoinGecko config_without_key
     (sample_world (primary_body (Fin 0.4)) unauthorized (candles_ok penny_candles))) =
     Inr \<lparr> currentPriceUsd = Fin 0, historicalPriceUsd = Fin 0,
           historicalTargetDate = ''2021-11-14T22:13:20.000Z'' \<rparr> \<and>
   \<not> integer_at_least 1 (Fin 0)"
  by code_simp

section \<open>Properties of the route handler\<close>

lemma GET_call_miss:
  "\<not> cache_fresh cfg s now \<Longrightarrow>
   GET_call cfg caller now s =
     (s\<lparr> inFlight := Some (awaiting s @ [caller]),
         pipeline_runs := pipeline_runs s + (if inFlight s = None then 1 else 0) \<rparr>, [])"
  by (cases "inFlight s") (simp_all add: GET_call_def awaiting_def cache_fresh_def)

lemma GET_call_hit:
  "cachedValue s = Some cv \<Longrightarrow> now - cachedAtMs cv < CACHE_TTL_SECONDS cfg * 1000 \<Longrightarrow>
   GET_call cfg caller now s = (s, [(caller, okJson cfg (payload cv) ''HIT'')])"
  by (simp add: GET_call_def fresh_payload_def)

lemma run_append:
  "run cfg (evs @ evs') s =
     (let (s', out) = run cfg evs s; (s'', out') = run cfg evs' s' in (s'', out @ out'))"
  by (induction evs arbitrary: s) (simp_all add: Let_def split: prod.splits)

lemma run_calls_miss:
  "\<forall>(caller, now) \<in> set arrivals. \<not> cache_fresh cfg s now \<Longrightarrow> arrivals \<noteq> [] \<Longrightarrow>
   run cfg (calls arrivals) s =
     (s\<lparr> inFlight := Some (awaiting s @ map fst arrivals),
         pipeline_runs := pipeline_runs s + (if inFlight s = None then 1 else 0) \<rparr>, [])"
proof (induction arrivals arbitrary: s)
  case Nil
  then show ?case by simp
next
  case (Cons a arrivals)
  obtain caller now where a: "a = (caller, now)" by (cases a)
  let ?s = "s\<lparr> inFlight := Some (awaiting s @ [caller]),
         pipeline_runs := pipeline_runs s + (if inFlight s = None then 1 else 0) \<rparr>"
  from Cons.prems have miss: "\<not> cache_fresh cfg s now" by (simp add: a)
  then have step: "GET_call cfg caller now s = (?s, [])" by (rule GET_call_miss)
  show ?case
  proof (cases "arrivals = []")
    case True
    with step show ?thesis by (simp add: a calls_def)
  next
    case False
    have "\<forall>(caller, now) \<in> set arrivals. \<not> cache_fresh cfg ?s now"
      using Cons.prems(1) by (auto simp: cache_fresh_def fresh_payload_def)
    from Cons.IH [OF this False]
    have "run cfg (calls arrivals) ?s =
        (?s\<lparr> inFlight := Some (awaiting ?s @ map fst arrivals),
             pipeline_runs := pipeline_runs ?s + (if inFlight ?s = None then 1 else 0) \<rparr>, [])" .
    with step show ?thesis by (simp add: a calls_def awaiting_def)
  qed
qed

lemma GET_settle_pending:
  "inFlight s = Some callers \<Longrightarrow>
   GET_settle cfg w now s =
     ((case fst (fetchFromCoinGecko cfg w) of
         Inr p \<Rightarrow> s\<lparr> cachedValue := Some \<lparr> payload = p, cachedAtMs = now \<rparr> \<rparr>
       | Inl e \<Rightarrow> s)\<lparr> inFlight := None \<rparr>,
      map (\<lambda>caller. (caller, GET_resume cfg (fst (fetchFromCoinGecko cfg w)))) callers)"
  by (simp add: GET_settle_def Let_def)

text \<open>
  Claim C1.  Let two or more calls arrive, none of them finding a fresh cache entry, before
  the pending refresh settles.  Then \<^verbatim>\<open>fetchFromCoinGecko\<close> is started once by them when no
  refresh was pending and not at all when one was; in both cases a single run of the
  pipeline serves them: when it settles, every one of these callers (after those already
  waiting) receives the response made from that one outcome, the same payload with status
  200 on success and the same error message with status 502 on failure.
\<close>

theorem concurrent_calls_share_one_refresh:
  assumes "2 \<le> length arrivals"
    and "\<forall>(caller, now) \<in> set arrivals. \<not> cache_fresh cfg s now"
  shows "pipeline_runs (fst (run cfg (calls arrivals @ [Settle w settled]) s)) =
           pipeline_runs s + (if inFlight s = None then 1 else 0) \<and>
         inFlight (fst (run cfg (calls arrivals @ [Settle w settled]) s)) = None \<and>
         snd (run cfg (calls arrivals @ [Settle w settled]) s) =
           map (\<lambda>caller. (caller, GET_resume cfg (fst (fetchFromCoinGecko cfg w))))
             (awaiting s @ map fst arrivals) \<and>
         (\<forall>p. fst (fetchFromCoinGecko cfg w) = Inr p \<longrightarrow>
              (\<forall>caller \<in> set (map fst arrivals).
                 (caller, okJson cfg p ''MISS'') \<in>
                   set (snd (run cfg (calls arrivals @ [Settle w settled]) s)))) \<and>
         (\<forall>e. fst (fetchFromCoinGecko cfg w) = Inl e \<longrightarrow>
              (\<forall>caller \<in> set (map fst arrivals).
                 (caller, errJson (catch_message e) 502 ''MISS'') \<in>
                   set (snd (run cfg (calls arrivals @ [Settle w settled]) s))))"
proof -
  let ?s = "s\<lparr> inFlight := Some (awaiting s @ map fst arrivals),
         pipeline_runs := pipeline_runs s + (if inFlight s = None then 1 else 0) \<rparr>"
  let ?out = "map (\<lambda>caller. (caller, GET_resume cfg (fst (fetchFromCoinGecko cfg w))))
             (awaiting s @ map fst arrivals)"
  from assms(1) have ne: "arrivals \<noteq> []" by auto
  have r1: "run cfg (calls arrivals) s = (?s, [])"
    using assms(2) ne by (rule run_calls_miss)
  have r2: "GET_settle cfg w settled ?s =
     ((case fst (fetchFromCoinGecko cfg w) of
         Inr p \<Rightarrow> ?s\<lparr> cachedValue := Some \<lparr> payload = p, cachedAtMs = settled \<rparr> \<rparr>
       | Inl e \<Rightarrow> ?s)\<lparr> inFlight := None \<rparr>, ?out)"
    by (rule GET_settle_pending) simp
  have r: "run cfg (calls arrivals @ [Settle w settled]) s =
     ((case fst (fetchFromCoinGecko cfg w) of
         Inr p \<Rightarrow> ?s\<lparr> cachedValue := Some \<lparr> payload = p, cachedAtMs = settled \<rparr> \<rparr>
       | Inl e \<Rightarrow> ?s)\<lparr> inFlight := None \<rparr>, ?out)"
    by (simp add: run_append r1 r2)
  have 1: "pipeline_runs (fst (run cfg (calls arrivals @ [Settle w settled]) s)) =
           pipeline_runs s + (if inFlight s = None then 1 else 0)"
    unfolding r by (simp split: sum.splits)
  have 2: "inFlight (fst (run cfg (calls arrivals @ [Settle w settled]) s)) = None"
    unfolding r by simp
  have 3: "snd (run cfg (calls arrivals @ [Settle w settled]) s) = ?out"
    unfolding r by simp
  have 4: "(caller, okJson cfg p ''MISS'') \<in> set (snd (run cfg (calls arrivals @ [Settle w settled]) s))"
    if "fst (fetchFromCoinGecko cfg w) = Inr p" and "caller \<in> set (map fst arrivals)" for p caller
    unfolding 3 using that by (auto simp: GET_resume_def)
  have 5: "(caller, errJson (catch_message e) 502 ''MISS'') \<in>
        set (snd (run cfg (calls arrivals @ [Settle w settled]) s))"
    if "fst (fetchFromCoinGecko cfg w) = Inl e" and "caller \<in> set (map fst arrivals)" for e caller
    unfolding 3 using that by (auto simp: GET_resume_def)
  from 1 2 3 4 5 show ?thesis by blast
qed

text \<open>
  Three calls on a server that has just started, and a refresh that succeeds.
\<close>

theorem concurrent_calls_share_one_refresh_witness:
  "2 \<le> length [(1, 1700000000100), (2, 1700000000101), (3::nat, 1700000000107::int)] \<and>
   \<not> cache_fresh config_with_key initial_state 1700000000100 \<and>
   \<not> cache_fresh config_with_key initial_state 1700000000101 \<and>
   \<not> cache_fresh config_with_key initial_state 1700000000107 \<and>
   pipeline_runs (fst (run config_with_key
      (calls [(1, 1700000000100), (2, 1700000000101), (3, 1700000000107)] @
       [Settle good_world 1700000000900]) initial_state)) = 1 \<and>
   snd (run config_with_key
      (calls [(1, 1700000000100), (2, 1700000000101), (3, 1700000000107)] @
       [Settle good_world 1700000000900]) initial_state) =
     [(1, okJson config_with_key sample_payload ''MISS''),
      (2, okJson config_with_key sample_payload ''MISS''),
      (3, okJson config_with_key sample_payload ''MISS'')]"
proof -
  let ?arrivals = "[(1, 1700000000100), (2, 1700000000101), (3::nat, 1700000000107::int)]"
  have l: "2 \<le> length ?arrivals" by simp
  have m: "\<forall>(caller, now) \<in> set ?arrivals. \<not> cache_fresh config_with_key initial_state now"
    by (simp add: cache_fresh_def fresh_payload_def initial_state_def)
  have o: "fst (fetchFromCoinGecko config_with_key good_world) = Inr sample_payload"
    by code_simp
  have i: "pipeline_runs initial_state + (if inFlight initial_state = None then 1 else 0) = 1"
    "awaiting initial_state = []"
    by (simp_all add: initial_state_def awaiting_def)
  from concurrent_calls_share_one_refresh [OF l m, of good_world 1700000000900]
  have "pipeline_runs (fst (run config_with_key
      (calls ?arrivals @ [Settle good_world 1700000000900]) initial_state)) = 1"
    and "snd (run config_with_key
      (calls ?arrivals @ [Settle good_world 1700000000900]) initial_state) =
      map (\<lambda>caller. (caller, GET_resume config_with_key (Inr sample_payload)))
        ([] @ map fst ?arrivals)"
    by (simp_all only: i o)
  then show ?thesis using l m by (simp add: GET_resume_def)
qed

text \<open>
  Claim C2.  When an entry is stored and \<open>now - cachedAtMs < TTL * 1000\<close>, the call returns
  at once the stored payload with status 200 and the header \<^verbatim>\<open>x-cache: HIT\<close>, and leaves
  the module state as it was, so that no pipeline is started.  The lifetime is 900 seconds
  when the variable is not set.  For every positive lifetime, a call at the time the entry
  was stored and a call one second before the lifetime ends both return the stored
  payload.
\<close>

theorem fresh_cache_hit:
  assumes "cachedValue s = Some cv"
  shows "(now - cachedAtMs cv < CACHE_TTL_SECONDS cfg * 1000 \<longrightarrow>
            GET_call cfg caller now s = (s, [(caller, okJson cfg (payload cv) ''HIT'')])) \<and>
         http_status (okJson cfg (payload cv) ''HIT'') = 200 \<and>
         json_body (okJson cfg (payload cv) ''HIT'') = payload_json (payload cv) \<and>
         headers_get (headers (okJson cfg (payload cv) ''HIT'')) ''x-cache'' = Some ''HIT'' \<and>
         (BTC_PRICE_CACHE_TTL_SECONDS cfg = None \<longrightarrow> CACHE_TTL_SECONDS cfg = 900) \<and>
         (0 < CACHE_TTL_SECONDS cfg \<longrightarrow>
            run cfg [Call caller (cachedAtMs cv),
                     Call caller' (cachedAtMs cv + CACHE_TTL_SECONDS cfg * 1000 - 1000)] s =
              (s, [(caller, okJson cfg (payload cv) ''HIT''),
                   (caller', okJson cfg (payload cv) ''HIT'')]))"
proof (intro conjI impI)
  assume "now - cachedAtMs cv < CACHE_TTL_SECONDS cfg * 1000"
  with assms show "GET_call cfg caller now s = (s, [(caller, okJson cfg (payload cv) ''HIT'')])"
    by (rule GET_call_hit)
next
  show "http_status (okJson cfg (payload cv) ''HIT'') = 200"
    by (simp add: okJson_def NextResponse_json_def)
  show "json_body (okJson cfg (payload cv) ''HIT'') = payload_json (payload cv)"
    by (simp add: okJson_def NextResponse_json_def)
  show "headers_get (headers (okJson cfg (payload cv) ''HIT'')) ''x-cache'' = Some ''HIT''"
    by (simp add: okJson_def NextResponse_json_def headers_get_def)
next
  assume "BTC_PRICE_CACHE_TTL_SECONDS cfg = None"
  then show "CACHE_TTL_SECONDS cfg = 900" by (simp add: CACHE_TTL_SECONDS_def)
next
  assume pos: "0 < CACHE_TTL_SECONDS cfg"
  have 1: "GET_call cfg caller (cachedAtMs cv) s = (s, [(caller, okJson cfg (payload cv) ''HIT'')])"
    using assms pos by (intro GET_call_hit) simp_all
  have 2: "GET_call cfg caller' (cachedAtMs cv + CACHE_TTL_SECONDS cfg * 1000 - 1000) s =
      (s, [(caller', okJson cfg (payload cv) ''HIT'')])"
    using assms by (intro GET_call_hit) simp_all
  show "run cfg [Call caller (cachedAtMs cv),
                 Call caller' (cachedAtMs cv + CACHE_TTL_SECONDS cfg * 1000 - 1000)] s =
          (s, [(caller, okJson cfg (payload cv) ''HIT''),
               (caller', okJson cfg (payload cv) ''HIT'')])"
    by (simp add: 1 2)
qed

text \<open>
  The default lifetime: calls at \<open>t\<close> and at \<open>t + 899\<close> seconds.
\<close>

theorem fresh_cache_hit_witness:
  "cachedValue warm_state = Some \<lparr> payload = sample_payload, cachedAtMs = 1700000000000 \<rparr> \<and>
   CACHE_TTL_SECONDS config_with_key = 900 \<and>
   run config_with_key [Call 1 1700000000000, Call 2 1700000899000] warm_state =
     (warm_state, [(1, okJson config_with_key sample_payload ''HIT''),
                   (2, okJson config_with_key sample_payload ''HIT'')]) \<and>
   headers (okJson config_with_key sample_payload ''HIT'') =
     [(''content-type'', ''application/json''),
      (''Cache-Control'', ''public, s-maxage=900, stale-while-revalidate=86400''),
      (''x-cache'', ''HIT'')]"
proof -
  let ?cv = "\<lparr> payload = sample_payload, cachedAtMs = 1700000000000 \<rparr>"
  have c: "cachedValue warm_state = Some ?cv"
    by (simp add: warm_state_def)
  have n: "BTC_PRICE_CACHE_TTL_SECONDS config_with_key = None"
    by (simp add: config_with_key_def)
  from fresh_cache_hit [OF c, of _ config_with_key] n
  have ttl: "CACHE_TTL_SECONDS config_with_key = 900" by blast
  have pos: "0 < CACHE_TTL_SECONDS config_with_key"
    by (simp add: ttl)
  have e: "cachedAtMs ?cv = 1700000000000" "payload ?cv = sample_payload"
    "1700000000000 + CACHE_TTL_SECONDS config_with_key * 1000 - 1000 = 1700000899000"
    by (simp_all add: ttl)
  from fresh_cache_hit [OF c, of 0 config_with_key 1 2] pos
  have "run config_with_key
          [Call 1 (cachedAtMs ?cv),
           Call 2 (cachedAtMs ?cv + CACHE_TTL_SECONDS config_with_key * 1000 - 1000)] warm_state =
        (warm_state, [(1, okJson config_with_key (payload ?cv) ''HIT''),
                      (2, okJson config_with_key (payload ?cv) ''HIT'')])"
    by blast
  then have "run config_with_key [Call 1 1700000000000, Call 2 1700000899000] warm_state =
        (warm_state, [(1, okJson config_with_key sample_payload ''HIT''),
                      (2, okJson config_with_key sample_payload ''HIT'')])"
    by (simp only: e)
  moreover have "headers (okJson config_with_key sample_payload ''HIT'') =
     [(''content-type'', ''application/json''),
      (''Cache-Control'', ''public, s-maxage=900, stale-while-revalidate=86400''),
      (''x-cache'', ''HIT'')]"
    by code_simp
  ultimately show ?thesis using c ttl by (intro conjI)
qed


lemma errJson_fields:
  "http_status (errJson msg 502 ''MISS'') = 502"
  "json_body (errJson msg 502 ''MISS'') = JObj [(''error'', JStr msg)]"
  "headers (errJson msg 502 ''MISS'') =
     [(''content-type'', ''application/json''),
      (''Cache-Control'', ''public, s-maxage=30, stale-while-revalidate=300''),
      (''x-cache'', ''MISS'')]"
  by (simp_all add: errJson_def NextResponse_json_def)

lemma GET_settle_failure:
  "inFlight s = Some callers \<Longrightarrow> fst (fetchFromCoinGecko cfg w) = Inl e \<Longrightarrow>
   GET_settle cfg w settled s =
     (s\<lparr> inFlight := None \<rparr>,
      map (\<lambda>caller. (caller, errJson (catch_message e) 502 ''MISS'')) callers)"
  by (simp add: GET_settle_pending GET_resume_def)

lemma GET_settle_success:
  "inFlight s = Some callers \<Longrightarrow> fst (fetchFromCoinGecko cfg w) = Inr p \<Longrightarrow>
   GET_settle cfg w settled s =
     (s\<lparr> cachedValue := Some \<lparr> payload = p, cachedAtMs = settled \<rparr>, inFlight := None \<rparr>,
      map (\<lambda>caller. (caller, okJson cfg p ''MISS'')) callers)"
  by (simp add: GET_settle_pending GET_resume_def)

lemma GET_call_idle_miss:
  "inFlight s = None \<Longrightarrow> \<not> cache_fresh cfg s now \<Longrightarrow>
   GET_call cfg caller now s =
     (s\<lparr> inFlight := Some [caller], pipeline_runs := pipeline_runs s + 1 \<rparr>, [])"
  by (simp add: GET_call_def cache_fresh_def)

text \<open>
  Claim C7.  When the awaited refresh fails, every suspended caller receives a response
  (no exception leaves \<^verbatim>\<open>GET\<close>) with status 502, body \<^verbatim>\<open>{ error: message }\<close>, the header
  \<^verbatim>\<open>Cache-Control: public, s-maxage=30, stale-while-revalidate=300\<close> and the header
  \<^verbatim>\<open>x-cache: MISS\<close>; the slot is cleared and the cache is as before.  A later call is
  served as usual: it starts a new refresh and, when that succeeds, receives the payload.
\<close>

theorem failed_refresh_answers_502:
  assumes "fst (fetchFromCoinGecko cfg w) = Inl e"
  shows "(\<forall>callers. inFlight s = Some callers \<longrightarrow>
            GET_settle cfg w settled s =
              (s\<lparr> inFlight := None \<rparr>,
               map (\<lambda>caller. (caller, errJson (catch_message e) 502 ''MISS'')) callers)) \<and>
         http_status (errJson (catch_message e) 502 ''MISS'') = 502 \<and>
         json_body (errJson (catch_message e) 502 ''MISS'') =
           JObj [(''error'', JStr (catch_message e))] \<and>
         headers (errJson (catch_message e) 502 ''MISS'') =
           [(''content-type'', ''application/json''),
            (''Cache-Control'', ''public, s-maxage=30, stale-while-revalidate=300''),
            (''x-cache'', ''MISS'')] \<and>
         (inFlight s = None \<and> \<not> cache_fresh cfg s now \<longrightarrow>
            run cfg [Call caller now, Settle w settled] s =
              (s\<lparr> inFlight := None, pipeline_runs := pipeline_runs s + 1 \<rparr>,
               [(caller, errJson (catch_message e) 502 ''MISS'')]) \<and>
            (\<forall>caller' now' w' settled' p.
               \<not> cache_fresh cfg s now' \<and> fst (fetchFromCoinGecko cfg w') = Inr p \<longrightarrow>
               run cfg [Call caller now, Settle w settled, Call caller' now', Settle w' settled'] s =
                 (s\<lparr> cachedValue := Some \<lparr> payload = p, cachedAtMs = settled' \<rparr>,
                     inFlight := None, pipeline_runs := pipeline_runs s + 2 \<rparr>,
                  [(caller, errJson (catch_message e) 502 ''MISS''),
                   (caller', okJson cfg p ''MISS'')])))"
proof (intro conjI allI impI)
  fix callers
  assume "inFlight s = Some callers"
  then show "GET_settle cfg w settled s =
      (s\<lparr> inFlight := None \<rparr>,
       map (\<lambda>caller. (caller, errJson (catch_message e) 502 ''MISS'')) callers)"
    using assms by (rule GET_settle_failure)
next
  show "http_status (errJson (catch_message e) 502 ''MISS'') = 502"
    and "json_body (errJson (catch_message e) 502 ''MISS'') =
           JObj [(''error'', JStr (catch_message e))]"
    and "headers (errJson (catch_message e) 502 ''MISS'') =
           [(''content-type'', ''application/json''),
            (''Cache-Control'', ''public, s-maxage=30, stale-while-revalidate=300''),
            (''x-cache'', ''MISS'')]"
    by (rule errJson_fields)+
next
  assume idle: "inFlight s = None \<and> \<not> cache_fresh cfg s now"
  let ?s1 = "s\<lparr> inFlight := Some [caller], pipeline_runs := pipeline_runs s + 1 \<rparr>"
  let ?s2 = "s\<lparr> inFlight := None, pipeline_runs := pipeline_runs s + 1 \<rparr>"
  have 1: "GET_call cfg caller now s = (?s1, [])"
    using idle by (simp add: GET_call_idle_miss)
  have "GET_settle cfg w settled ?s1 =
      (?s1\<lparr> inFlight := None \<rparr>, map (\<lambda>c. (c, errJson (catch_message e) 502 ''MISS'')) [caller])"
    using assms by (intro GET_settle_failure) simp_all
  then have 2: "GET_settle cfg w settled ?s1 = (?s2, [(caller, errJson (catch_message e) 502 ''MISS'')])"
    by simp
  show r: "run cfg [Call caller now, Settle w settled] s =
      (?s2, [(caller, errJson (catch_message e) 502 ''MISS'')])"
    by (simp only: run.simps step.simps 1 2 Let_def prod.case append.simps append_Nil2)
  fix caller' now' w' settled' p
  assume next_call: "\<not> cache_fresh cfg s now' \<and> fst (fetchFromCoinGecko cfg w') = Inr p"
  let ?s3 = "?s2\<lparr> inFlight := Some [caller'], pipeline_runs := pipeline_runs ?s2 + 1 \<rparr>"
  have "\<not> cache_fresh cfg ?s2 now'"
    using next_call by (simp add: cache_fresh_def fresh_payload_def)
  then have 3: "GET_call cfg caller' now' ?s2 = (?s3, [])"
    by (intro GET_call_idle_miss) simp_all
  have "GET_settle cfg w' settled' ?s3 =
      (?s3\<lparr> cachedValue := Some \<lparr> payload = p, cachedAtMs = settled' \<rparr>, inFlight := None \<rparr>,
       map (\<lambda>c. (c, okJson cfg p ''MISS'')) [caller'])"
    using next_call by (intro GET_settle_success) simp_all
  then have 4: "GET_settle cfg w' settled' ?s3 =
      (s\<lparr> cachedValue := Some \<lparr> payload = p, cachedAtMs = settled' \<rparr>,
          inFlight := None, pipeline_runs := pipeline_runs s + 2 \<rparr>,
       [(caller', okJson cfg p ''MISS'')])"
    by simp
  show "run cfg [Call caller now, Settle w settled, Call caller' now', Settle w' settled'] s =
      (s\<lparr> cachedValue := Some \<lparr> payload = p, cachedAtMs = settled' \<rparr>,
          inFlight := None, pipeline_runs := pipeline_runs s + 2 \<rparr>,
       [(caller, errJson (catch_message e) 502 ''MISS''), (caller', okJson cfg p ''MISS'')])"
    by (simp only: run.simps step.simps 1 2 3 4 Let_def prod.case append.simps append_Nil2)
qed

text \<open>
  A call whose refresh fails on a 500 from the historical request, then a call whose
  refresh succeeds.
\<close>

theorem failed_refresh_answers_502_witness:
  "fst (fetchFromCoinGecko config_with_key bad_world) =
     Inl (Error ''Error'' ''CoinGecko historical price error: 500 Internal Server Error'') \<and>
   inFlight initial_state = None \<and> \<not> cache_fresh config_with_key initial_state 1700000000100 \<and>
   fst (fetchFromCoinGecko config_with_key good_world) = Inr sample_payload \<and>
   run config_with_key
     [Call 1 1700000000100, Settle bad_world 1700000000900,
      Call 2 1700000031000, Settle good_world 1700000031800] initial_state =
     (\<lparr> cachedValue = Some \<lparr> payload = sample_payload, cachedAtMs = 1700000031800 \<rparr>,
        inFlight = None, pipeline_runs = 2 \<rparr>,
      [(1, \<lparr> http_status = 502,
             json_body = JObj [(''error'',
                JStr ''CoinGecko historical price error: 500 Internal Server Error'')],
             headers = [(''content-type'', ''application/json''),
                        (''Cache-Control'', ''public, s-maxage=30, stale-while-revalidate=300''),
                        (''x-cache'', ''MISS'')] \<rparr>),
       (2, okJson config_with_key sample_payload ''MISS'')])"
proof -
  let ?e = "Error ''Error'' ''CoinGecko historical price error: 500 Internal Server Error''"
  have f: "fst (fetchFromCoinGecko config_with_key bad_world) = Inl ?e"
    by code_simp
  have g: "fst (fetchFromCoinGecko config_with_key good_world) = Inr sample_payload"
    by code_simp
  have i: "inFlight initial_state = None \<and> \<not> cache_fresh config_with_key initial_state 1700000000100"
    by (simp add: initial_state_def cache_fresh_def fresh_payload_def)
  have m: "\<not> cache_fresh config_with_key initial_state 1700000031000 \<and>
      fst (fetchFromCoinGecko config_with_key good_world) = Inr sample_payload"
    using g by (simp add: initial_state_def cache_fresh_def fresh_payload_def)
  from failed_refresh_answers_502 [OF f, of initial_state 1700000000900 1700000000100 1] i m
  have "run config_with_key
     [Call 1 1700000000100, Settle bad_world 1700000000900,
      Call 2 1700000031000, Settle good_world 1700000031800] initial_state =
     (initial_state\<lparr> cachedValue := Some \<lparr> payload = sample_payload, cachedAtMs = 1700000031800 \<rparr>,
        inFlight := None, pipeline_runs := pipeline_runs initial_state + 2 \<rparr>,
      [(1, errJson (catch_message ?e) 502 ''MISS''),
       (2, okJson config_with_key sample_payload ''MISS'')])"
    by blast
  moreover have "initial_state\<lparr> cachedValue := Some \<lparr> payload = sample_payload, cachedAtMs = 1700000031800 \<rparr>,
        inFlight := None, pipeline_runs := pipeline_runs initial_state + 2 \<rparr> =
      \<lparr> cachedValue = Some \<lparr> payload = sample_payload, cachedAtMs = 1700000031800 \<rparr>,
        inFlight = None, pipeline_runs = 2 \<rparr>"
    by (simp add: initial_state_def)
  moreover have "errJson (catch_message ?e) 502 ''MISS'' =
      \<lparr> http_status = 502,
        json_body = JObj [(''error'',
                JStr ''CoinGecko historical price error: 500 Internal Server Error'')],
        headers = [(''content-type'', ''application/json''),
                   (''Cache-Control'', ''public, s-maxage=30, stale-while-revalidate=300''),
                   (''x-cache'', ''MISS'')] \<rparr>"
    by (simp add: errJson_def NextResponse_json_def catch_message_def)
  ultimately show ?thesis using f g i by simp
qed

text \<open>
  Claim C8.  After the refresh settles the slot is \<^verbatim>\<open>null\<close>, whatever the outcome.  If the
  pending refresh succeeded, the cache entry is the new payload with the time of completion;
  if it failed, the cache entry is the one stored before; so the entry changes only on
  success.
\<close>

theorem refresh_settles_slot_cleared:
  "inFlight (fst (GET_settle cfg w settled s)) = None \<and>
   (\<forall>p. inFlight s \<noteq> None \<and> fst (fetchFromCoinGecko cfg w) = Inr p \<longrightarrow>
        cachedValue (fst (GET_settle cfg w settled s)) =
          Some \<lparr> payload = p, cachedAtMs = settled \<rparr>) \<and>
   (\<forall>e. fst (fetchFromCoinGecko cfg w) = Inl e \<longrightarrow>
        cachedValue (fst (GET_settle cfg w settled s)) = cachedValue s) \<and>
   (cachedValue (fst (GET_settle cfg w settled s)) \<noteq> cachedValue s \<longrightarrow>
      (\<exists>p. fst (fetchFromCoinGecko cfg w) = Inr p))"
  by (cases "inFlight s"; cases "fst (fetchFromCoinGecko cfg w)")
     (simp_all add: GET_settle_def Let_def)

text \<open>
  A pending refresh over an old entry: settled with success, and settled with failure.
\<close>

theorem refresh_settles_slot_cleared_witness:
  "inFlight pending_state \<noteq> None \<and>
   fst (fetchFromCoinGecko config_with_key good_world) = Inr sample_payload \<and>
   GET_settle config_with_key good_world 1700000000900 pending_state =
     (\<lparr> cachedValue = Some \<lparr> payload = sample_payload, cachedAtMs = 1700000000900 \<rparr>,
        inFlight = None, pipeline_runs = 2 \<rparr>,
      [(4, okJson config_with_key sample_payload ''MISS''),
       (5, okJson config_with_key sample_payload ''MISS'')]) \<and>
   fst (fetchFromCoinGecko config_with_key bad_world) =
     Inl (Error ''Error'' ''CoinGecko historical price error: 500 Internal Server Error'') \<and>
   cachedValue (fst (GET_settle config_with_key bad_world 1700000000900 pending_state)) =
     Some \<lparr> payload = sample_payload, cachedAtMs = 1600000000000 \<rparr> \<and>
   inFlight (fst (GET_settle config_with_key bad_world 1700000000900 pending_state)) = None"
proof -
  have p: "inFlight pending_state \<noteq> None"
    by (simp add: pending_state_def)
  have g: "fst (fetchFromCoinGecko config_with_key good_world) = Inr sample_payload"
    by code_simp
  have f: "fst (fetchFromCoinGecko config_with_key bad_world) =
      Inl (Error ''Error'' ''CoinGecko historical price error: 500 Internal Server Error'')"
    by code_simp
  have r: "GET_settle config_with_key good_world 1700000000900 pending_state =
     (\<lparr> cachedValue = Some \<lparr> payload = sample_payload, cachedAtMs = 1700000000900 \<rparr>,
        inFlight = None, pipeline_runs = 2 \<rparr>,
      [(4, okJson config_with_key sample_payload ''MISS''),
       (5, okJson config_with_key sample_payload ''MISS'')])"
    by (simp add: GET_settle_def g GET_resume_def pending_state_def)
  from refresh_settles_slot_cleared [of config_with_key bad_world 1700000000900 pending_state] f
  have "cachedValue (fst (GET_settle config_with_key bad_world 1700000000900 pending_state)) =
      cachedValue pending_state"
    and "inFlight (fst (GET_settle config_with_key bad_world 1700000000900 pending_state)) = None"
    by blast+
  with p g f r show ?thesis by (simp add: pending_state_def)
qed

end
